theory Spec2Isabelle
  imports Main
begin

section \<open>JavaScript values and strings\<close>

text \<open>
  The values that the fields and parameters of \<^verbatim>\<open>Switch\<close> (prime.js) can hold:
  \<^verbatim>\<open>null\<close>, \<^verbatim>\<open>undefined\<close>, a string, a function (named), or some other object
  (named). A string is its text in UTF-8, a list of bytes: the child processes write bytes,
  \<^verbatim>\<open>communicate_utf8\<close> accepts them only as UTF-8, and the literals of the class are ASCII.
  Equality, concatenation and splitting at a space are the same on this form as on the code
  units of the language.
\<close>

datatype jsval = Null | Undefined | Str string | Func string | Obj string

text \<open>Truthiness, as tested by \<^verbatim>\<open>if (x)\<close>, \<^verbatim>\<open>!x\<close> and \<^verbatim>\<open>x || y\<close>.\<close>

fun truthy :: "jsval \<Rightarrow> bool" where
  "truthy Null = False"
| "truthy Undefined = False"
| "truthy (Str s) = (s \<noteq> [])"
| "truthy (Func f) = True"
| "truthy (Obj x) = True"

text \<open>
  The string conversion applied by \<^verbatim>\<open>cmd + ' -L'\<close>. The methods of the class only ever
  concatenate values read from the command table under its own four keys, which are strings;
  the other cases are the conversions of the language.
\<close>

fun to_string :: "jsval \<Rightarrow> string" where
  "to_string Null = ''null''"
| "to_string Undefined = ''undefined''"
| "to_string (Str s) = s"
| "to_string (Func f) =
     ''function '' @ f @ ''() {'' @ [CHR 0x0A] @ ''    [native code]'' @ [CHR 0x0A] @ ''}''"
| "to_string (Obj x) = ''[object Object]''"

text \<open>\<^verbatim>\<open>a || b\<close> on two strings: the empty string is falsy.\<close>

definition str_or :: "string \<Rightarrow> string \<Rightarrow> string" where
  "str_or a b = (if a \<noteq> [] then a else b)"

text \<open>
  \<^verbatim>\<open>String.prototype.trim\<close> removes white space and line terminators from both ends:
  U+0009 to U+000D, U+0020, U+00A0, U+1680, U+2000 to U+200A, U+2028, U+2029, U+202F, U+205F,
  U+3000 and U+FEFF, listed here in UTF-8. In UTF-8 text one of these byte sequences at the
  start or at the end is that character, as no character's bytes begin or end another's.
\<close>

definition white_space :: "string list" where
  "white_space =
     [[CHR 0x09], [CHR 0x0A], [CHR 0x0B], [CHR 0x0C], [CHR 0x0D], [CHR 0x20],
      [CHR 0xC2, CHR 0xA0],
      [CHR 0xE1, CHR 0x9A, CHR 0x80],
      [CHR 0xE2, CHR 0x80, CHR 0x80], [CHR 0xE2, CHR 0x80, CHR 0x81],
      [CHR 0xE2, CHR 0x80, CHR 0x82], [CHR 0xE2, CHR 0x80, CHR 0x83],
      [CHR 0xE2, CHR 0x80, CHR 0x84], [CHR 0xE2, CHR 0x80, CHR 0x85],
      [CHR 0xE2, CHR 0x80, CHR 0x86], [CHR 0xE2, CHR 0x80, CHR 0x87],
      [CHR 0xE2, CHR 0x80, CHR 0x88], [CHR 0xE2, CHR 0x80, CHR 0x89],
      [CHR 0xE2, CHR 0x80, CHR 0x8A],
      [CHR 0xE2, CHR 0x80, CHR 0xA8], [CHR 0xE2, CHR 0x80, CHR 0xA9],
      [CHR 0xE2, CHR 0x80, CHR 0xAF],
      [CHR 0xE2, CHR 0x81, CHR 0x9F],
      [CHR 0xE3, CHR 0x80, CHR 0x80],
      [CHR 0xEF, CHR 0xBB, CHR 0xBF]]"

text \<open>
  The length of the first of the sequences \<open>es\<close> that \<open>s\<close> begins with, or 0 when it begins
  with none; \<open>strip\<close> removes such sequences from the start for as long as there is one.
\<close>

definition leading :: "string list \<Rightarrow> string \<Rightarrow> nat" where
  "leading es s =
     (case find (\<lambda>e. take (length e) s = e) es of Some e \<Rightarrow> length e | None \<Rightarrow> 0)"

function strip :: "string list \<Rightarrow> string \<Rightarrow> string" where
  "strip es s = (if leading es s = 0 \<or> s = [] then s else strip es (drop (leading es s) s))"
  by pat_completeness auto
termination
  by (relation "measure (\<lambda>(es, s). length s)") auto

definition trim :: "string \<Rightarrow> string" where
  "trim s = rev (strip (map rev white_space) (rev (strip white_space s)))"

text \<open>
  \<^verbatim>\<open>command.split(' ')\<close>: the pieces between single spaces; the empty string gives one
  empty piece, two spaces in a row give an empty piece between them.
\<close>

fun split_sp :: "string \<Rightarrow> string list" where
  "split_sp [] = [[]]"
| "split_sp (c # cs) =
     (if c = CHR 0x20 then [] # split_sp cs
      else (case split_sp cs of [] \<Rightarrow> [[c]] | x # xs \<Rightarrow> (c # x) # xs))"

section \<open>The world outside the class\<close>

text \<open>
  What running a child process with a given argument vector does: creating it fails
  (\<^verbatim>\<open>subprocess.init\<close> throws), or it starts and reading its output fails
  (\<^verbatim>\<open>communicate_utf8\<close> throws), or it exits with a status and two output streams.
  The string of an error is its \<^verbatim>\<open>e.toString()\<close>.
\<close>

datatype proc = SpawnError string | CommError string | Exited int string string

text \<open>
  The function handed to \<^verbatim>\<open>_shell_exec_async\<close> as its callback. The class creates one
  such function, in \<^verbatim>\<open>switch\<close>, which captures the target \<^verbatim>\<open>gpu\<close> and the caller's
  \<^verbatim>\<open>callback\<close>.
\<close>

datatype closure = SwitchDone string jsval

text \<open>
  Effects that can be observed from outside, in the order they happen: a child process
  started (synchronously or asynchronously) with its argument vector, a call of
  \<^verbatim>\<open>Log.journal\<close> with its arguments, a call of the caller's callback \<open>f\<close> with
  \<^verbatim>\<open>{gpu: g, result: r}\<close>, and a signal emitted with its payload.
\<close>

datatype event =
    Exec "string list"
  | ExecAsync "string list"
  | Journal "string list"
  | Invoke string string bool
  | Emit string jsval

text \<open>
  The world: how child processes behave at present (\<open>shell\<close>), the effects so far, the
  asynchronous child processes that have not completed yet with the command line and the
  callback they were started with, and the live file monitors with their path and the signals
  that have a handler connected.
\<close>

record world =
  shell :: "string list \<Rightarrow> proc"
  trace :: "event list"
  pending :: "(string \<times> closure option) list"
  monitors :: "(nat \<times> string \<times> string list) list"

text \<open>A method either returns a value or throws; the world it leaves is kept in both cases.\<close>

datatype 'a completion = Return 'a | Throw string

definition and_then ::
  "'a completion \<times> world \<Rightarrow> ('a \<Rightarrow> world \<Rightarrow> 'b completion \<times> world) \<Rightarrow> 'b completion \<times> world" where
  "and_then m f = (case m of (Return a, w) \<Rightarrow> f a w | (Throw e, w) \<Rightarrow> (Throw e, w))"

section \<open>The class Switch\<close>

text \<open>
  The object literal assigned to \<^verbatim>\<open>this._commands\<close> has exactly the four keys below; each
  value is what \<^verbatim>\<open>_which\<close> returned, a string. A leading underscore of the source is
  written \<open>priv_\<close>.
\<close>

record commands =
  cmd_sudo :: string
  cmd_select :: string
  cmd_management :: string
  cmd_settings :: string

record Switch =
  priv_commands :: commands
  priv_gpu :: jsval
  priv_listener :: "nat option"

record exec_result =
  status :: int
  stdin :: string
  stdout :: string
  stderr :: string

subsection \<open>Logging\<close>

definition priv_log :: "string \<Rightarrow> world \<Rightarrow> world" where
  "priv_log message w = w\<lparr>trace := trace w @ [Journal [''Prime.Switch'', message]]\<rparr>"

subsection \<open>The synchronous runner\<close>

text \<open>The body of the \<^verbatim>\<open>try\<close> block of \<^verbatim>\<open>_shell_exec\<close>.\<close>

definition shell_exec_try :: "string \<Rightarrow> exec_result \<Rightarrow> world \<Rightarrow> exec_result completion \<times> world" where
  "shell_exec_try command result w =
     (let argv = split_sp command in
      case shell w argv of
        SpawnError e \<Rightarrow> (Throw e, w)
      | CommError e \<Rightarrow> (Throw e, w\<lparr>trace := trace w @ [Exec argv]\<rparr>)
      | Exited st out err \<Rightarrow>
          (Return (result\<lparr>status := st, stdout := out, stderr := err\<rparr>),
           w\<lparr>trace := trace w @ [Exec argv]\<rparr>))"

definition priv_shell_exec :: "string \<Rightarrow> world \<Rightarrow> exec_result completion \<times> world" where
  "priv_shell_exec command w =
     (let result = \<lparr>status = - 1, stdin = command, stdout = [], stderr = []\<rparr> in
      case shell_exec_try command result w of
        (Return r, w') \<Rightarrow> (Return r, w')
      | (Throw e, w') \<Rightarrow> (Return (result\<lparr>stderr := e\<rparr>), w'))"

definition priv_which :: "string \<Rightarrow> world \<Rightarrow> string completion \<times> world" where
  "priv_which command w =
     and_then (priv_shell_exec (''which '' @ command) w)
       (\<lambda>exec w'. (Return (str_or (trim (stdout exec)) (trim (stderr exec))), w'))"

subsection \<open>The asynchronous runner\<close>

text \<open>
  Calling the callback of \<^verbatim>\<open>_shell_exec_async\<close> with a result \<open>e\<close>. The function created
  in \<^verbatim>\<open>switch\<close> logs the outcome and, when the caller's callback is a function, calls it
  with \<^verbatim>\<open>{gpu: gpu, result: !e.status}\<close>. The caller's function is taken to return.
\<close>

fun call_closure :: "closure \<Rightarrow> exec_result \<Rightarrow> world \<Rightarrow> world" where
  "call_closure (SwitchDone g callback) e w =
     (let w1 = (if status e = 0 then priv_log (''switched to '' @ g) w
                else priv_log (''not switched to '' @ g @ '' ('' @ trim (stderr e) @ '')'') w)
      in case callback of
           Func f \<Rightarrow> w1\<lparr>trace := trace w1 @ [Invoke f g (status e = 0)]\<rparr>
         | _ \<Rightarrow> w1)"

text \<open>
  The body of the \<^verbatim>\<open>try\<close> block of \<^verbatim>\<open>_shell_exec_async\<close>: the child process is
  created, and the completion function is registered with it, to be run later with the
  command line and the callback; nothing else happens now.
\<close>

definition shell_exec_async_try :: "string \<Rightarrow> closure option \<Rightarrow> world \<Rightarrow> unit completion \<times> world" where
  "shell_exec_async_try command callback w =
     (let argv = split_sp command in
      case shell w argv of
        SpawnError e \<Rightarrow> (Throw e, w)
      | _ \<Rightarrow> (Return (), w\<lparr>trace := trace w @ [ExecAsync argv],
                             pending := pending w @ [(command, callback)]\<rparr>))"

definition priv_shell_exec_async :: "string \<Rightarrow> closure option \<Rightarrow> world \<Rightarrow> unit completion \<times> world" where
  "priv_shell_exec_async command callback w =
     (case shell_exec_async_try command callback w of
        (Return u, w') \<Rightarrow> (Return u, w')
      | (Throw e, w') \<Rightarrow>
          (case callback of
             Some k \<Rightarrow> (Return (), call_closure k
                          \<lparr>status = - 1, stdin = command, stdout = [], stderr = e\<rparr> w')
           | None \<Rightarrow> (Return (), w')))"

text \<open>
  What the main loop finds when a pending child process has completed: its exit status, and
  either the two output streams or the error that reading them throws
  (\<^verbatim>\<open>communicate_utf8_finish\<close>, on output that is not UTF-8 or cannot be read).
\<close>

datatype finished = Done int string string | Unread int string

text \<open>
  The completion function registered by \<^verbatim>\<open>_shell_exec_async\<close>, run by the main loop when
  the \<open>i\<close>-th pending child process has completed. It has no \<^verbatim>\<open>try\<close>: when reading the
  output throws, the function ends there and the callback is not called.
\<close>

definition async_complete :: "nat \<Rightarrow> finished \<Rightarrow> world \<Rightarrow> unit completion \<times> world" where
  "async_complete i fin w =
     (if i < length (pending w) then
        (let w' = w\<lparr>pending := take i (pending w) @ drop (Suc i) (pending w)\<rparr> in
         case fin of
           Unread st e \<Rightarrow> (Throw e, w')
         | Done st out err \<Rightarrow>
             (case pending w ! i of
                (command, Some k) \<Rightarrow>
                  (Return (), call_closure k
                     \<lparr>status = st, stdin = command, stdout = out, stderr = err\<rparr> w')
              | (command, None) \<Rightarrow> (Return (), w')))
      else (Return (), w))"

text \<open>
  \<^verbatim>\<open>_handle_async_shell_exec\<close>, which nothing in the class calls: the same completion
  function as a method, given what the source has completed with.
\<close>

definition priv_handle_async_shell_exec ::
  "finished \<Rightarrow> string \<Rightarrow> closure option \<Rightarrow> world \<Rightarrow> unit completion \<times> world" where
  "priv_handle_async_shell_exec fin stdin' callback w =
     (case fin of
        Unread st e \<Rightarrow> (Throw e, w)
      | Done st out err \<Rightarrow>
          (case callback of
             Some k \<Rightarrow> (Return (), call_closure k
                          \<lparr>status = st, stdin = stdin', stdout = out, stderr = err\<rparr> w)
           | None \<Rightarrow> (Return (), w)))"

subsection \<open>The constructor\<close>

definition constructor :: "world \<Rightarrow> Switch completion \<times> world" where
  "constructor w =
     and_then (priv_which ''pkexec'' w) (\<lambda>pkexec w.
     and_then (if pkexec \<noteq> [] then (Return pkexec, w) else priv_which ''gksudo'' w) (\<lambda>sudo w.
     and_then (priv_which ''prime-select'' w) (\<lambda>select w.
     and_then (priv_which ''nvidia-smi'' w) (\<lambda>management w.
     and_then (priv_which ''nvidia-settings'' w) (\<lambda>settings w.
       (Return \<lparr>priv_commands = \<lparr>cmd_sudo = sudo, cmd_select = select,
                                  cmd_management = management, cmd_settings = settings\<rparr>,
                priv_gpu = Null, priv_listener = None\<rparr>, w))))))"

subsection \<open>Looking a command up\<close>

text \<open>
  \<^verbatim>\<open>cmd in this._commands\<close> is true for the keys of the object and for the properties it
  inherits: the table is an object literal, so its prototype is \<^verbatim>\<open>Object.prototype\<close>, whose
  properties are listed here with the value that reading them gives.
\<close>

definition object_prototype :: "(string \<times> jsval) list" where
  "object_prototype =
     [(''constructor'', Func ''Object''),
      (''hasOwnProperty'', Func ''hasOwnProperty''),
      (''isPrototypeOf'', Func ''isPrototypeOf''),
      (''propertyIsEnumerable'', Func ''propertyIsEnumerable''),
      (''toLocaleString'', Func ''toLocaleString''),
      (''toString'', Func ''toString''),
      (''valueOf'', Func ''valueOf''),
      (''__defineGetter__'', Func ''__defineGetter__''),
      (''__defineSetter__'', Func ''__defineSetter__''),
      (''__lookupGetter__'', Func ''__lookupGetter__''),
      (''__lookupSetter__'', Func ''__lookupSetter__''),
      (''__proto__'', Obj ''Object.prototype'')]"

definition own_property :: "commands \<Rightarrow> string \<Rightarrow> jsval option" where
  "own_property t k =
     (if k = ''sudo'' then Some (Str (cmd_sudo t))
      else if k = ''select'' then Some (Str (cmd_select t))
      else if k = ''management'' then Some (Str (cmd_management t))
      else if k = ''settings'' then Some (Str (cmd_settings t))
      else None)"

definition has_property :: "commands \<Rightarrow> string \<Rightarrow> bool" where
  "has_property t k =
     (case own_property t k of
        Some v \<Rightarrow> True
      | None \<Rightarrow> (case map_of object_prototype k of Some v \<Rightarrow> True | None \<Rightarrow> False))"

definition read_property :: "commands \<Rightarrow> string \<Rightarrow> jsval" where
  "read_property t k =
     (case own_property t k of
        Some v \<Rightarrow> v
      | None \<Rightarrow> (case map_of object_prototype k of Some v \<Rightarrow> v | None \<Rightarrow> Undefined))"

definition command :: "Switch \<Rightarrow> string \<Rightarrow> jsval" where
  "command s cmd =
     (if has_property (priv_commands s) cmd then read_property (priv_commands s) cmd
      else Null)"

subsection \<open>The getters\<close>

definition index :: string where
  "index = ''/etc/prime-discrete''"

function gpu :: "Switch \<Rightarrow> world \<Rightarrow> jsval completion \<times> Switch \<times> world" where
  "gpu s w =
     (if truthy (priv_gpu s) then (Return (priv_gpu s), s, w)
      else
        (let cmd = command s ''management'' in
         if truthy cmd then
           (case priv_shell_exec (to_string cmd @ '' -L'') w of
              (Return exec, w') \<Rightarrow>
                gpu (s\<lparr>priv_gpu := Str (if status exec \<noteq> 0 then ''intel'' else ''nvidia'')\<rparr>) w'
            | (Throw e, w') \<Rightarrow> (Throw e, s, w'))
         else gpu (s\<lparr>priv_gpu := Str ''unknown''\<rparr>) w))"
  by pat_completeness auto
termination
  by (relation "measure (\<lambda>(s, w). if truthy (priv_gpu s) then 0 else 1)") auto

definition query :: "Switch \<Rightarrow> world \<Rightarrow> string completion \<times> world" where
  "query s w =
     (let cmd = command s ''select'' in
      if truthy cmd then
        and_then (priv_shell_exec (to_string cmd @ '' query'') w)
          (\<lambda>exec w'. (Return (str_or (str_or (trim (stdout exec)) (trim (stderr exec)))
                                      ''unknown''), w'))
      else (Return ''unknown'', w))"

subsection \<open>Switching, settings\<close>

definition switch :: "string \<Rightarrow> jsval \<Rightarrow> Switch \<Rightarrow> world \<Rightarrow> unit completion \<times> world" where
  "switch g callback s w =
     (let sudo = command s ''sudo'' in
      if \<not> truthy sudo then (Return (), w)
      else
        (let select = command s ''select'' in
         if \<not> truthy select then (Return (), w)
         else
           and_then (query s w) (\<lambda>q w1.
             if q = g then (Return (), w1)
             else
               (let cmd = to_string sudo @ '' '' @ to_string select @ '' '' @ g in
                priv_shell_exec_async cmd (Some (SwitchDone g callback))
                  (priv_log (''switching to '' @ g) w1)))))"

definition settings :: "Switch \<Rightarrow> world \<Rightarrow> unit completion \<times> world" where
  "settings s w =
     (let cmd = command s ''settings'' in
      if \<not> truthy cmd then (Return (), w)
      else priv_shell_exec_async (to_string cmd) None w)"

subsection \<open>The file monitor\<close>

text \<open>
  \<^verbatim>\<open>Gio.File.new_for_path(p).monitor_file(...)\<close> gives a new live monitor, named by a
  number no live monitor has, and is taken to succeed; \<^verbatim>\<open>connect\<close> adds a handler for a
  signal of a monitor; \<^verbatim>\<open>cancel\<close> ends a monitor.
\<close>

definition fresh_handle :: "world \<Rightarrow> nat" where
  "fresh_handle w = Suc (fold max (map fst (monitors w)) 0)"

definition monitor_file :: "string \<Rightarrow> world \<Rightarrow> nat \<times> world" where
  "monitor_file p w =
     (fresh_handle w, w\<lparr>monitors := monitors w @ [(fresh_handle w, p, [])]\<rparr>)"

definition connect :: "nat \<Rightarrow> string \<Rightarrow> world \<Rightarrow> world" where
  "connect h sig w =
     w\<lparr>monitors := map (\<lambda>(h', p, sigs). if h' = h then (h', p, sigs @ [sig]) else (h', p, sigs))
                      (monitors w)\<rparr>"

definition cancel :: "nat \<Rightarrow> world \<Rightarrow> world" where
  "cancel h w = w\<lparr>monitors := filter (\<lambda>(h', p, sigs). h' \<noteq> h) (monitors w)\<rparr>"

definition monitor :: "Switch \<Rightarrow> world \<Rightarrow> Switch \<times> world" where
  "monitor s w =
     (if priv_listener s \<noteq> None then (s, w)
      else
        (case monitor_file index w of
           (h, w1) \<Rightarrow> (s\<lparr>priv_listener := Some h\<rparr>, connect h ''changed'' w1)))"

definition unmonitor :: "Switch \<Rightarrow> world \<Rightarrow> Switch \<times> world" where
  "unmonitor s w =
     (case priv_listener s of
        None \<Rightarrow> (s, w)
      | Some h \<Rightarrow> (s\<lparr>priv_listener := None\<rparr>, cancel h w))"

definition destroy :: "Switch \<Rightarrow> world \<Rightarrow> Switch \<times> world" where
  "destroy s w = unmonitor s w"

definition priv_handle_listener :: "Switch \<Rightarrow> world \<Rightarrow> unit completion \<times> Switch \<times> world" where
  "priv_handle_listener s w =
     (case gpu s w of
        (Return v, s', w') \<Rightarrow> (Return (), s', w'\<lparr>trace := trace w' @ [Emit ''gpu-change'' v]\<rparr>)
      | (Throw e, s', w') \<Rightarrow> (Throw e, s', w'))"

text \<open>
  A change of the file at path \<open>p\<close>: every live monitor of that path runs the handlers
  connected to its \<^verbatim>\<open>changed\<close> signal, which are all \<^verbatim>\<open>_handle_listener\<close> of the
  instance.
\<close>

definition subscriptions :: "string \<Rightarrow> world \<Rightarrow> nat list" where
  "subscriptions p w =
     concat (map (\<lambda>(h, p', sigs). if p' = p then map (\<lambda>sig. h) (filter (\<lambda>sig. sig = ''changed'') sigs)
                                    else [])
                 (monitors w))"

fun deliver :: "nat list \<Rightarrow> Switch \<Rightarrow> world \<Rightarrow> Switch \<times> world" where
  "deliver [] s w = (s, w)"
| "deliver (h # hs) s w = (case priv_handle_listener s w of (r, s', w') \<Rightarrow> deliver hs s' w')"

definition file_changed :: "string \<Rightarrow> Switch \<Rightarrow> world \<Rightarrow> Switch \<times> world" where
  "file_changed p s w = deliver (subscriptions p w) s w"

subsection \<open>Histories of an instance\<close>

text \<open>
  Everything that can happen to an instance: a call of one of its methods or getters, the
  completion of a pending child process, a change of a file.
\<close>

datatype call =
    CallGpu
  | CallQuery
  | CallCommand string
  | CallSwitch string jsval
  | CallSettings
  | CallMonitor
  | CallUnmonitor
  | CallDestroy
  | CallIndex
  | CallLog string
  | CallWhich string
  | CallShellExec string
  | CallShellExecAsync string "closure option"
  | CallHandleListener
  | CallHandleAsyncShellExec finished string "closure option"
  | Completed nat finished
  | FileChanged string

fun invoke :: "call \<Rightarrow> Switch \<Rightarrow> world \<Rightarrow> Switch \<times> world" where
  "invoke CallGpu s w = snd (gpu s w)"
| "invoke CallQuery s w = (s, snd (query s w))"
| "invoke (CallCommand cmd) s w = (s, w)"
| "invoke (CallSwitch g callback) s w = (s, snd (switch g callback s w))"
| "invoke CallSettings s w = (s, snd (settings s w))"
| "invoke CallMonitor s w = monitor s w"
| "invoke CallUnmonitor s w = unmonitor s w"
| "invoke CallDestroy s w = destroy s w"
| "invoke CallIndex s w = (s, w)"
| "invoke (CallLog message) s w = (s, priv_log message w)"
| "invoke (CallWhich c) s w = (s, snd (priv_which c w))"
| "invoke (CallShellExec c) s w = (s, snd (priv_shell_exec c w))"
| "invoke (CallShellExecAsync c callback) s w = (s, snd (priv_shell_exec_async c callback w))"
| "invoke CallHandleListener s w = snd (priv_handle_listener s w)"
| "invoke (CallHandleAsyncShellExec fin c callback) s w =
     (s, snd (priv_handle_async_shell_exec fin c callback w))"
| "invoke (Completed i fin) s w = (s, snd (async_complete i fin w))"
| "invoke (FileChanged p) s w = file_changed p s w"

text \<open>
  A history: before each step the behaviour of child processes may have changed to the
  given one.
\<close>

fun run :: "((string list \<Rightarrow> proc) \<times> call) list \<Rightarrow> Switch \<Rightarrow> world \<Rightarrow> Switch \<times> world" where
  "run [] s w = (s, w)"
| "run ((sh, c) # cs) s w = (case invoke c s (w\<lparr>shell := sh\<rparr>) of (s', w') \<Rightarrow> run cs s' w')"

section \<open>Example machines\<close>

text \<open>
  A machine with all the helpers installed: \<^verbatim>\<open>which\<close> prints the path of each, except for
  \<^verbatim>\<open>gksudo\<close>; \<^verbatim>\<open>nvidia-smi -L\<close> exits with status \<open>smi\<close>, and
  \<^verbatim>\<open>prime-select query\<close> prints \<open>selection\<close> and a line feed. Anything else cannot be
  started.
\<close>

definition box :: "int \<Rightarrow> string \<Rightarrow> string list \<Rightarrow> proc" where
  "box smi selection argv =
     (if argv = [''which'', ''pkexec''] then Exited 0 (''/usr/bin/pkexec'' @ [CHR 0x0A]) []
      else if argv = [''which'', ''prime-select''] then
        Exited 0 (''/usr/bin/prime-select'' @ [CHR 0x0A]) []
      else if argv = [''which'', ''nvidia-smi''] then
        Exited 0 (''/usr/bin/nvidia-smi'' @ [CHR 0x0A]) []
      else if argv = [''which'', ''nvidia-settings''] then
        Exited 0 (''/usr/bin/nvidia-settings'' @ [CHR 0x0A]) []
      else if argv = [''which'', ''gksudo''] then Exited 1 [] []
      else if argv = [''/usr/bin/nvidia-smi'', ''-L''] then Exited smi [] []
      else if argv = [''/usr/bin/prime-select'', ''query''] then
        Exited 0 (selection @ [CHR 0x0A]) []
      else if argv = [''/usr/bin/pkexec'', ''/usr/bin/prime-select'', ''intel''] then
        Exited 0 [] []
      else if argv = [''/usr/bin/nvidia-settings''] then Exited 0 [] []
      else SpawnError ''Failed to execute child process (No such file or directory)'')"

text \<open>
  A machine with none of the helpers: \<^verbatim>\<open>which\<close> exits with status 1 and prints nothing.
\<close>

definition bare :: "string list \<Rightarrow> proc" where
  "bare argv =
     (if take 1 argv = [''which''] then Exited 1 [] []
      else SpawnError ''Failed to execute child process (No such file or directory)'')"

definition world0 :: "(string list \<Rightarrow> proc) \<Rightarrow> world" where
  "world0 sh = \<lparr>shell = sh, trace = [], pending = [], monitors = []\<rparr>"

text \<open>The instances that the constructor builds on these two machines.\<close>

definition box_switch :: Switch where
  "box_switch =
     \<lparr>priv_commands = \<lparr>cmd_sudo = ''/usr/bin/pkexec'', cmd_select = ''/usr/bin/prime-select'',
                        cmd_management = ''/usr/bin/nvidia-smi'',
                        cmd_settings = ''/usr/bin/nvidia-settings''\<rparr>,
      priv_gpu = Null, priv_listener = None\<rparr>"

definition bare_switch :: Switch where
  "bare_switch =
     \<lparr>priv_commands = \<lparr>cmd_sudo = [], cmd_select = [], cmd_management = [], cmd_settings = []\<rparr>,
      priv_gpu = Null, priv_listener = None\<rparr>"

text \<open>
  The instance on the first machine after it has read \<^verbatim>\<open>gpu\<close> and called
  \<^verbatim>\<open>monitor()\<close>, and the world then, with \<^verbatim>\<open>nvidia-smi -L\<close> exiting with status \<open>n\<close>
  from now on.
\<close>

definition nvidia_switch :: Switch where
  "nvidia_switch = box_switch\<lparr>priv_gpu := Str ''nvidia'', priv_listener := Some 1\<rparr>"

definition nvidia_world :: "int \<Rightarrow> world" where
  "nvidia_world n =
     \<lparr>shell = box n ''nvidia'',
      trace = [Exec [''which'', ''pkexec''], Exec [''which'', ''prime-select''],
               Exec [''which'', ''nvidia-smi''], Exec [''which'', ''nvidia-settings''],
               Exec [''/usr/bin/nvidia-smi'', ''-L'']],
      pending = [],
      monitors = [(1, ''/etc/prime-discrete'', [''changed''])]\<rparr>"

text \<open>
  A run of \<^verbatim>\<open>which\<close> that finds nothing and says nothing: it exits, and both streams hold
  white space at most.
\<close>

definition prints_nothing :: "proc \<Rightarrow> bool" where
  "prints_nothing p =
     (case p of
        Exited st out err \<Rightarrow> trim out = [] \<and> trim err = []
      | SpawnError e \<Rightarrow> False
      | CommError e \<Rightarrow> False)"

text \<open>
  A machine with none of the helpers whose \<^verbatim>\<open>which\<close> reports a miss on standard error, and
  the instance that the constructor builds on it.
\<close>

definition gnu :: "string list \<Rightarrow> proc" where
  "gnu argv =
     (case argv of
        [a, b] \<Rightarrow>
          if a = ''which'' then Exited 1 [] (''which: no '' @ b @ '' in (/usr/bin)'' @ [CHR 0x0A])
          else SpawnError ''Failed to execute child process (No such file or directory)''
      | _ \<Rightarrow> SpawnError ''Failed to execute child process (No such file or directory)'')"

definition gnu_switch :: Switch where
  "gnu_switch =
     \<lparr>priv_commands = \<lparr>cmd_sudo = ''which: no pkexec in (/usr/bin)'',
                        cmd_select = ''which: no prime-select in (/usr/bin)'',
                        cmd_management = ''which: no nvidia-smi in (/usr/bin)'',
                        cmd_settings = ''which: no nvidia-settings in (/usr/bin)''\<rparr>,
      priv_gpu = Null, priv_listener = None\<rparr>"

section \<open>Basic facts\<close>

text \<open>The equation of \<open>gpu\<close> calls itself, so it is unfolded by hand only.\<close>

declare gpu.simps [simp del]

text \<open>The same holds for \<open>strip\<close>; on given strings \<open>trim\<close> is evaluated with the code equations.\<close>

declare strip.simps [simp del]

lemma split_sp_nonempty: "split_sp cs \<noteq> []"
  by (induction cs) (auto split: list.splits)

lemma priv_shell_exec_eq:
  "priv_shell_exec c w =
     (case shell w (split_sp c) of
        SpawnError e \<Rightarrow> (Return \<lparr>status = - 1, stdin = c, stdout = [], stderr = e\<rparr>, w)
      | CommError e \<Rightarrow> (Return \<lparr>status = - 1, stdin = c, stdout = [], stderr = e\<rparr>,
                        w\<lparr>trace := trace w @ [Exec (split_sp c)]\<rparr>)
      | Exited st out err \<Rightarrow> (Return \<lparr>status = st, stdin = c, stdout = out, stderr = err\<rparr>,
                        w\<lparr>trace := trace w @ [Exec (split_sp c)]\<rparr>))"
  by (simp add: priv_shell_exec_def shell_exec_try_def Let_def split: proc.splits)

lemma priv_shell_exec_returns: "\<exists>r w'. priv_shell_exec c w = (Return r, w')"
  by (simp add: priv_shell_exec_eq split: proc.splits)

lemma priv_shell_exec_world:
  "shell (snd (priv_shell_exec c w)) = shell w"
  "pending (snd (priv_shell_exec c w)) = pending w"
  "monitors (snd (priv_shell_exec c w)) = monitors w"
  by (simp_all add: priv_shell_exec_eq split: proc.splits)

lemma command_own:
  "command s ''sudo'' = Str (cmd_sudo (priv_commands s))"
  "command s ''select'' = Str (cmd_select (priv_commands s))"
  "command s ''management'' = Str (cmd_management (priv_commands s))"
  "command s ''settings'' = Str (cmd_settings (priv_commands s))"
  by (simp_all add: command_def has_property_def read_property_def own_property_def)

lemma gpu_cached: "truthy (priv_gpu s) \<Longrightarrow> gpu s w = (Return (priv_gpu s), s, w)"
  by (simp add: gpu.simps)

lemma gpu_unknown:
  "\<not> truthy (priv_gpu s) \<Longrightarrow> cmd_management (priv_commands s) = [] \<Longrightarrow>
   gpu s w = (Return (Str ''unknown''), s\<lparr>priv_gpu := Str ''unknown''\<rparr>, w)"
  by (subst gpu.simps) (simp add: command_own gpu_cached)

lemma gpu_probe:
  "\<not> truthy (priv_gpu s) \<Longrightarrow> cmd_management (priv_commands s) \<noteq> [] \<Longrightarrow>
   priv_shell_exec (cmd_management (priv_commands s) @ '' -L'') w = (Return r, w') \<Longrightarrow>
   gpu s w = (Return (Str (if status r \<noteq> 0 then ''intel'' else ''nvidia'')),
              s\<lparr>priv_gpu := Str (if status r \<noteq> 0 then ''intel'' else ''nvidia'')\<rparr>, w')"
  by (subst gpu.simps) (simp add: command_own gpu_cached)


section \<open>The getter of the active GPU\<close>

text \<open>
  Claim C1, amended. For every read of \<^verbatim>\<open>gpu\<close> made while no value is cached (the first
  read of an instance): if the management helper was not resolved, the result is
  \<^verbatim>\<open>'unknown'\<close> and nothing is run; otherwise \<^verbatim>\<open><manager> -L\<close> is run synchronously,
  and the result is \<^verbatim>\<open>'intel'\<close> exactly when the status of the run is not zero and
  \<^verbatim>\<open>'nvidia'\<close> exactly when it is zero. The result is stored in the instance.
\<close>

theorem gpu_first_read:
  assumes "\<not> truthy (priv_gpu s)"
  shows "(cmd_management (priv_commands s) = [] \<longrightarrow>
            gpu s w = (Return (Str ''unknown''), s\<lparr>priv_gpu := Str ''unknown''\<rparr>, w))
       \<and> (cmd_management (priv_commands s) \<noteq> [] \<longrightarrow>
            (\<exists>r w' v. priv_shell_exec (cmd_management (priv_commands s) @ '' -L'') w = (Return r, w')
               \<and> gpu s w = (Return (Str v), s\<lparr>priv_gpu := Str v\<rparr>, w')
               \<and> (v = ''intel'' \<longleftrightarrow> status r \<noteq> 0) \<and> (v = ''nvidia'' \<longleftrightarrow> status r = 0)))"
proof (intro conjI impI)
  assume "cmd_management (priv_commands s) = []"
  with assms show "gpu s w = (Return (Str ''unknown''), s\<lparr>priv_gpu := Str ''unknown''\<rparr>, w)"
    by (rule gpu_unknown)
next
  assume present: "cmd_management (priv_commands s) \<noteq> []"
  obtain r w' where run: "priv_shell_exec (cmd_management (priv_commands s) @ '' -L'') w = (Return r, w')"
    using priv_shell_exec_returns by blast
  let ?v = "if status r \<noteq> 0 then ''intel'' else ''nvidia''"
  have "gpu s w = (Return (Str ?v), s\<lparr>priv_gpu := Str ?v\<rparr>, w')"
    using assms present run by (rule gpu_probe)
  moreover have "(?v = ''intel'' \<longleftrightarrow> status r \<noteq> 0) \<and> (?v = ''nvidia'' \<longleftrightarrow> status r = 0)"
    by simp
  ultimately show "\<exists>r w' v. priv_shell_exec (cmd_management (priv_commands s) @ '' -L'') w = (Return r, w')
               \<and> gpu s w = (Return (Str v), s\<lparr>priv_gpu := Str v\<rparr>, w')
               \<and> (v = ''intel'' \<longleftrightarrow> status r \<noteq> 0) \<and> (v = ''nvidia'' \<longleftrightarrow> status r = 0)"
    using run by blast
qed

text \<open>The probe on the example machine.\<close>

lemma box_smi:
  "priv_shell_exec ''/usr/bin/nvidia-smi -L'' (world0 (box n q)) =
     (Return \<lparr>status = n, stdin = ''/usr/bin/nvidia-smi -L'', stdout = [], stderr = []\<rparr>,
      (world0 (box n q))\<lparr>trace := [Exec [''/usr/bin/nvidia-smi'', ''-L'']]\<rparr>)"
  by (simp add: priv_shell_exec_eq world0_def box_def)

text \<open>
  Claim C1 as stated, for every read, fails on a later read: the instance built on the example
  machine has read \<^verbatim>\<open>'nvidia'\<close>; the helper is resolved and would now exit with status 9,
  but the read gives \<^verbatim>\<open>'nvidia'\<close>, not \<^verbatim>\<open>'intel'\<close>, and runs nothing: the world is
  unchanged.
\<close>

theorem gpu_later_read_counterexample:
  "cmd_management (priv_commands (box_switch\<lparr>priv_gpu := Str ''nvidia''\<rparr>)) = ''/usr/bin/nvidia-smi''
   \<and> fst (priv_shell_exec (''/usr/bin/nvidia-smi'' @ '' -L'') (world0 (box 9 ''nvidia''))) =
       Return \<lparr>status = 9, stdin = ''/usr/bin/nvidia-smi -L'', stdout = [], stderr = []\<rparr>
   \<and> gpu (box_switch\<lparr>priv_gpu := Str ''nvidia''\<rparr>) (world0 (box 9 ''nvidia'')) =
       (Return (Str ''nvidia''), box_switch\<lparr>priv_gpu := Str ''nvidia''\<rparr>, world0 (box 9 ''nvidia''))"
  by (simp add: box_smi gpu_cached) (simp add: box_switch_def)


theorem gpu_first_read_witness:
  "\<not> truthy (priv_gpu box_switch) \<and> cmd_management (priv_commands box_switch) \<noteq> []
   \<and> fst (gpu box_switch (world0 (box 0 ''nvidia''))) = Return (Str ''nvidia'')
   \<and> trace (snd (snd (gpu box_switch (world0 (box 0 ''nvidia''))))) = [Exec [''/usr/bin/nvidia-smi'', ''-L'']]
   \<and> fst (gpu box_switch (world0 (box 9 ''nvidia''))) = Return (Str ''intel'')
   \<and> \<not> truthy (priv_gpu bare_switch) \<and> cmd_management (priv_commands bare_switch) = []
   \<and> fst (gpu bare_switch (world0 bare)) = Return (Str ''unknown'')"
proof -
  have a: "\<not> truthy (priv_gpu box_switch)" and b: "cmd_management (priv_commands box_switch) = ''/usr/bin/nvidia-smi''"
    and c: "\<not> truthy (priv_gpu bare_switch)" and d: "cmd_management (priv_commands bare_switch) = []"
    by (simp_all add: box_switch_def bare_switch_def)
  have "fst (gpu box_switch (world0 (box 0 ''nvidia''))) = Return (Str ''nvidia'')
        \<and> trace (snd (snd (gpu box_switch (world0 (box 0 ''nvidia''))))) = [Exec [''/usr/bin/nvidia-smi'', ''-L'']]"
    using gpu_first_read [OF a, of "world0 (box 0 ''nvidia'')"] by (simp add: b box_smi) 
  moreover have "fst (gpu box_switch (world0 (box 9 ''nvidia''))) = Return (Str ''intel'')"
    using gpu_first_read [OF a, of "world0 (box 9 ''nvidia'')"] by (simp add: b box_smi)
  moreover have "fst (gpu bare_switch (world0 bare)) = Return (Str ''unknown'')"
    using gpu_first_read [OF c, of "world0 bare"] by (simp add: d)
  ultimately show ?thesis using a b c d by simp
qed

section \<open>Looking up a role\<close>

text \<open>
  Claim C10. For a role name outside the four known roles \<^verbatim>\<open>command\<close> is documented to
  return \<^verbatim>\<open>null\<close>. The test \<^verbatim>\<open>cmd in this._commands\<close> also holds for the names that the
  table inherits, so for the role name \<^verbatim>\<open>'toString'\<close> the method returns the inherited
  function, whatever the instance.
\<close>

theorem command_inherited_key:
  "command s ''toString'' = Func ''toString''"
  by (simp add: command_def has_property_def read_property_def own_property_def object_prototype_def)

text \<open>
  For a name that is neither a key of the table nor inherited, the result is \<^verbatim>\<open>null\<close>.
\<close>

lemma command_unknown_key:
  "k \<notin> {''sudo'', ''select'', ''management'', ''settings''} \<Longrightarrow> map_of object_prototype k = None \<Longrightarrow>
   command s k = Null"
  by (simp add: command_def has_property_def read_property_def own_property_def)

section \<open>The two runners\<close>

lemma priv_shell_exec_async_eq:
  "priv_shell_exec_async c cb w =
     (case shell w (split_sp c) of
        SpawnError e \<Rightarrow>
          (case cb of
             Some k \<Rightarrow> (Return (), call_closure k \<lparr>status = - 1, stdin = c, stdout = [], stderr = e\<rparr> w)
           | None \<Rightarrow> (Return (), w))
      | CommError e \<Rightarrow> (Return (), w\<lparr>trace := trace w @ [ExecAsync (split_sp c)],
                                      pending := pending w @ [(c, cb)]\<rparr>)
      | Exited st out err \<Rightarrow> (Return (), w\<lparr>trace := trace w @ [ExecAsync (split_sp c)],
                                      pending := pending w @ [(c, cb)]\<rparr>))"
  by (simp add: priv_shell_exec_async_def shell_exec_async_try_def Let_def split: proc.splits)

lemma call_closure_Func:
  "call_closure (SwitchDone g (Func f)) e w =
     w\<lparr>trace := trace w @
        [Journal [''Prime.Switch'',
                  if status e = 0 then ''switched to '' @ g
                  else ''not switched to '' @ g @ '' ('' @ trim (stderr e) @ '')''],
         Invoke f g (status e = 0)]\<rparr>"
  by (simp add: priv_log_def)

lemma call_closure_other:
  assumes "\<And>f. cb \<noteq> Func f"
  shows "call_closure (SwitchDone g cb) e w =
     w\<lparr>trace := trace w @
        [Journal [''Prime.Switch'',
                  if status e = 0 then ''switched to '' @ g
                  else ''not switched to '' @ g @ '' ('' @ trim (stderr e) @ '')'']]\<rparr>"
proof (cases cb)
  case (Func f)
  with assms show ?thesis by blast
qed (simp_all add: priv_log_def)

lemma call_closure_shell: "shell (call_closure k e w) = shell w"
  by (cases k) (simp add: priv_log_def Let_def split: jsval.splits)

lemma call_closure_pending: "pending (call_closure k e w) = pending w"
  by (cases k) (simp add: priv_log_def Let_def split: jsval.splits)

lemma call_closure_monitors: "monitors (call_closure k e w) = monitors w"
  by (cases k) (simp add: priv_log_def Let_def split: jsval.splits)

text \<open>
  Claim C7. Neither runner raises: \<^verbatim>\<open>_shell_exec\<close> always returns a result, and when the
  child process cannot be started or its output cannot be read, the result has status \<open>-1\<close>,
  empty standard output and the text of the error as standard error. \<^verbatim>\<open>_shell_exec_async\<close>
  always returns; when the child process cannot be started, it calls the supplied callback
  once, at once, with status \<open>-1\<close> and the text of the error, and leaves nothing pending that
  could call it again. For the callback that \<^verbatim>\<open>switch\<close> supplies, with a caller's function
  \<open>f\<close>, the effects of that one call are a log entry and one call of \<open>f\<close>.
\<close>

theorem runners_never_raise:
  "(\<exists>r w'. priv_shell_exec c w = (Return r, w'))
   \<and> (shell w (split_sp c) = SpawnError e \<or> shell w (split_sp c) = CommError e \<longrightarrow>
        fst (priv_shell_exec c w) = Return \<lparr>status = - 1, stdin = c, stdout = [], stderr = e\<rparr>)
   \<and> (\<exists>w'. priv_shell_exec_async c cb w = (Return (), w'))
   \<and> (shell w (split_sp c) = SpawnError e \<longrightarrow>
        priv_shell_exec_async c (Some k) w =
          (Return (), call_closure k \<lparr>status = - 1, stdin = c, stdout = [], stderr = e\<rparr> w)
        \<and> pending (snd (priv_shell_exec_async c (Some k) w)) = pending w
        \<and> trace (snd (priv_shell_exec_async c (Some (SwitchDone g (Func f))) w)) =
            trace w @ [Journal [''Prime.Switch'', ''not switched to '' @ g @ '' ('' @ trim e @ '')''],
                       Invoke f g False])"
proof (intro conjI impI)
  show "\<exists>r w'. priv_shell_exec c w = (Return r, w')"
    by (rule priv_shell_exec_returns)
next
  assume "shell w (split_sp c) = SpawnError e \<or> shell w (split_sp c) = CommError e"
  then show "fst (priv_shell_exec c w) = Return \<lparr>status = - 1, stdin = c, stdout = [], stderr = e\<rparr>"
    by (auto simp: priv_shell_exec_eq)
next
  show "\<exists>w'. priv_shell_exec_async c cb w = (Return (), w')"
    by (simp add: priv_shell_exec_async_eq split: proc.splits option.splits)
next
  assume fails: "shell w (split_sp c) = SpawnError e"
  then show "priv_shell_exec_async c (Some k) w =
          (Return (), call_closure k \<lparr>status = - 1, stdin = c, stdout = [], stderr = e\<rparr> w)"
    by (simp add: priv_shell_exec_async_eq)
  from fails show "pending (snd (priv_shell_exec_async c (Some k) w)) = pending w"
    by (simp add: priv_shell_exec_async_eq call_closure_pending)
  from fails show "trace (snd (priv_shell_exec_async c (Some (SwitchDone g (Func f))) w)) =
            trace w @ [Journal [''Prime.Switch'', ''not switched to '' @ g @ '' ('' @ trim e @ '')''],
                       Invoke f g False]"
    by (simp add: priv_shell_exec_async_eq priv_log_def Let_def)
qed

theorem runners_never_raise_witness:
  "shell (world0 bare) (split_sp ''nosuch -x'') =
     SpawnError ''Failed to execute child process (No such file or directory)''
   \<and> fst (priv_shell_exec ''nosuch -x'' (world0 bare)) =
       Return \<lparr>status = - 1, stdin = ''nosuch -x'', stdout = [],
               stderr = ''Failed to execute child process (No such file or directory)''\<rparr>
   \<and> fst (priv_shell_exec_async ''nosuch -x'' (Some (SwitchDone ''intel'' (Func ''cb''))) (world0 bare)) =
       Return ()
   \<and> pending (snd (priv_shell_exec_async ''nosuch -x'' (Some (SwitchDone ''intel'' (Func ''cb'')))
                      (world0 bare))) = []
   \<and> trace (snd (priv_shell_exec_async ''nosuch -x'' (Some (SwitchDone ''intel'' (Func ''cb'')))
                    (world0 bare))) =
       [Journal [''Prime.Switch'',
                 ''not switched to intel (Failed to execute child process (No such file or directory))''],
        Invoke ''cb'' ''intel'' False]"
proof -
  have fails: "shell (world0 bare) (split_sp ''nosuch -x'') =
     SpawnError ''Failed to execute child process (No such file or directory)''"
    by (simp add: world0_def bare_def)
  have tr: "trim ''Failed to execute child process (No such file or directory)'' =
     ''Failed to execute child process (No such file or directory)''"
    by code_simp
  have empty: "trace (world0 bare) = [] \<and> pending (world0 bare) = []"
    by (simp add: world0_def)
  show ?thesis
    using runners_never_raise [where c = "''nosuch -x''" and w = "world0 bare"
        and e = "''Failed to execute child process (No such file or directory)''"
        and g = "''intel''" and f = "''cb''" and k = "SwitchDone ''intel'' (Func ''cb'')"
        and cb = "Some (SwitchDone ''intel'' (Func ''cb''))"]
      fails tr empty
    by auto
qed

section \<open>The getter of the current selection\<close>

lemma query_eq:
  "query s w =
     (if cmd_select (priv_commands s) = [] then (Return ''unknown'', w)
      else (case priv_shell_exec (cmd_select (priv_commands s) @ '' query'') w of
              (Return r, w') \<Rightarrow>
                (Return (if trim (stdout r) \<noteq> [] then trim (stdout r)
                         else if trim (stderr r) \<noteq> [] then trim (stderr r)
                         else ''unknown''), w')
            | (Throw e, w') \<Rightarrow> (Throw e, w')))"
  by (simp add: query_def command_own and_then_def str_or_def Let_def split: completion.splits prod.splits)

text \<open>
  Claim C8. For every read of \<^verbatim>\<open>query\<close>, in any state of the instance: if the selector
  helper is absent the result is \<^verbatim>\<open>'unknown'\<close>; otherwise \<^verbatim>\<open><selector> query\<close> is run
  synchronously, in the world as it is at that read, and the result is the trimmed standard
  output, or if that is empty the trimmed standard error, or if that is empty too
  \<^verbatim>\<open>'unknown'\<close>. The getter stores nothing in the instance.
\<close>

theorem query_recomputed:
  "(cmd_select (priv_commands s) = [] \<longrightarrow> query s w = (Return ''unknown'', w))
   \<and> (cmd_select (priv_commands s) \<noteq> [] \<longrightarrow>
        (\<exists>r w'. priv_shell_exec (cmd_select (priv_commands s) @ '' query'') w = (Return r, w')
           \<and> query s w =
               (Return (if trim (stdout r) \<noteq> [] then trim (stdout r)
                        else if trim (stderr r) \<noteq> [] then trim (stderr r)
                        else ''unknown''), w')))"
proof (intro conjI impI)
  assume "cmd_select (priv_commands s) = []"
  then show "query s w = (Return ''unknown'', w)"
    by (simp add: query_eq)
next
  assume present: "cmd_select (priv_commands s) \<noteq> []"
  obtain r w' where run: "priv_shell_exec (cmd_select (priv_commands s) @ '' query'') w = (Return r, w')"
    using priv_shell_exec_returns by blast
  with present have "query s w =
               (Return (if trim (stdout r) \<noteq> [] then trim (stdout r)
                        else if trim (stderr r) \<noteq> [] then trim (stderr r)
                        else ''unknown''), w')"
    by (simp add: query_eq)
  with run show "\<exists>r w'. priv_shell_exec (cmd_select (priv_commands s) @ '' query'') w = (Return r, w')
           \<and> query s w =
               (Return (if trim (stdout r) \<noteq> [] then trim (stdout r)
                        else if trim (stderr r) \<noteq> [] then trim (stderr r)
                        else ''unknown''), w')"
    by blast
qed

lemma box_query:
  "priv_shell_exec ''/usr/bin/prime-select query'' (world0 (box n q)) =
     (Return \<lparr>status = 0, stdin = ''/usr/bin/prime-select query'', stdout = q @ [CHR 0x0A],
              stderr = []\<rparr>,
      (world0 (box n q))\<lparr>trace := [Exec [''/usr/bin/prime-select'', ''query'']]\<rparr>)"
  by (simp add: priv_shell_exec_eq world0_def box_def)

theorem query_recomputed_witness:
  "cmd_select (priv_commands box_switch) \<noteq> []
   \<and> query box_switch (world0 (box 0 ''nvidia'')) =
       (Return ''nvidia'',
        (world0 (box 0 ''nvidia''))\<lparr>trace := [Exec [''/usr/bin/prime-select'', ''query'']]\<rparr>)
   \<and> fst (query box_switch (world0 (box 0 ''intel''))) = Return ''intel''
   \<and> fst (query box_switch
            (world0 (box 0 ([CHR 0xC2, CHR 0xA0] @ ''nvidia'' @ [CHR 0xC2, CHR 0xA0])))) =
       Return ''nvidia''
   \<and> cmd_select (priv_commands bare_switch) = []
   \<and> query bare_switch (world0 bare) = (Return ''unknown'', world0 bare)"
proof -
  have a: "cmd_select (priv_commands box_switch) = ''/usr/bin/prime-select''"
    and b: "cmd_select (priv_commands bare_switch) = []"
    by (simp_all add: box_switch_def bare_switch_def)
  have t1: "trim (''nvidia'' @ [CHR 0x0A]) = ''nvidia''" and t2: "trim (''intel'' @ [CHR 0x0A]) = ''intel''"
    and t3: "trim (([CHR 0xC2, CHR 0xA0] @ ''nvidia'' @ [CHR 0xC2, CHR 0xA0]) @ [CHR 0x0A]) = ''nvidia''"
    by code_simp+
  have "query box_switch (world0 (box 0 ''nvidia'')) =
       (Return ''nvidia'',
        (world0 (box 0 ''nvidia''))\<lparr>trace := [Exec [''/usr/bin/prime-select'', ''query'']]\<rparr>)"
    using query_recomputed [of box_switch "world0 (box 0 ''nvidia'')"] t1
    by (simp add: a box_query)
  moreover have "fst (query box_switch (world0 (box 0 ''intel''))) = Return ''intel''"
    using query_recomputed [of box_switch "world0 (box 0 ''intel'')"] t2
    by (simp add: a box_query)
  moreover have "fst (query box_switch
            (world0 (box 0 ([CHR 0xC2, CHR 0xA0] @ ''nvidia'' @ [CHR 0xC2, CHR 0xA0])))) =
       Return ''nvidia''"
    using query_recomputed [of box_switch
        "world0 (box 0 ([CHR 0xC2, CHR 0xA0] @ ''nvidia'' @ [CHR 0xC2, CHR 0xA0]))"] t3
    by (simp add: a box_query)
  moreover have "query bare_switch (world0 bare) = (Return ''unknown'', world0 bare)"
    using query_recomputed [of bare_switch "world0 bare"] by (simp add: b)
  ultimately show ?thesis using a b by simp
qed

section \<open>Switching\<close>

lemma query_returns: "\<exists>q w'. query s w = (Return q, w')"
  using priv_shell_exec_returns [of "cmd_select (priv_commands s) @ '' query''" w]
  by (auto simp: query_eq)

lemma query_shell: "shell (snd (query s w)) = shell w"
  using priv_shell_exec_returns [of "cmd_select (priv_commands s) @ '' query''" w]
        priv_shell_exec_world(1) [of "cmd_select (priv_commands s) @ '' query''" w]
  by (auto simp: query_eq)

lemma query_pending: "pending (snd (query s w)) = pending w"
  using priv_shell_exec_returns [of "cmd_select (priv_commands s) @ '' query''" w]
        priv_shell_exec_world(2) [of "cmd_select (priv_commands s) @ '' query''" w]
  by (auto simp: query_eq)

lemma query_trace:
  "trace (snd (query s w)) = trace w
   \<or> trace (snd (query s w)) = trace w @ [Exec (split_sp (cmd_select (priv_commands s) @ '' query''))]"
  by (simp add: query_eq priv_shell_exec_eq split: proc.splits)

lemma switch_eq:
  "switch g cb s w =
     (if cmd_sudo (priv_commands s) = [] then (Return (), w)
      else if cmd_select (priv_commands s) = [] then (Return (), w)
      else (case query s w of
              (Return q, w1) \<Rightarrow>
                if q = g then (Return (), w1)
                else priv_shell_exec_async
                       (cmd_sudo (priv_commands s) @ '' '' @ cmd_select (priv_commands s) @ '' '' @ g)
                       (Some (SwitchDone g cb)) (priv_log (''switching to '' @ g) w1)
            | (Throw e, w1) \<Rightarrow> (Throw e, w1)))"
  by (simp add: switch_def command_own and_then_def Let_def split: prod.splits completion.splits)

text \<open>
  Claim C3. \<^verbatim>\<open>switch(gpu, callback)\<close> does nothing when the privilege helper is absent,
  whatever the rest: the world is unchanged. The same holds when the selector helper is absent.
  With both present, the current selection is read, and when it equals \<open>gpu\<close> the method
  stops there: the world is the one the read of \<^verbatim>\<open>query\<close> left, so that at most the run of
  \<^verbatim>\<open><selector> query\<close> is added to the effects, no switch command is started or left
  pending, and the callback is not called. That the helpers are tested first, in this order,
  shows in the first two cases running nothing at all.
\<close>

theorem switch_noop:
  "(cmd_sudo (priv_commands s) = [] \<longrightarrow> switch g cb s w = (Return (), w))
   \<and> (cmd_select (priv_commands s) = [] \<longrightarrow> switch g cb s w = (Return (), w))
   \<and> (cmd_sudo (priv_commands s) \<noteq> [] \<and> cmd_select (priv_commands s) \<noteq> []
        \<and> fst (query s w) = Return g \<longrightarrow>
          switch g cb s w = (Return (), snd (query s w))
          \<and> pending (snd (switch g cb s w)) = pending w
          \<and> (trace (snd (switch g cb s w)) = trace w
              \<or> trace (snd (switch g cb s w)) =
                 trace w @ [Exec (split_sp (cmd_select (priv_commands s) @ '' query''))]))"
proof (intro conjI impI)
  assume "cmd_sudo (priv_commands s) = []"
  then show "switch g cb s w = (Return (), w)" by (simp add: switch_eq)
next
  assume "cmd_select (priv_commands s) = []"
  then show "switch g cb s w = (Return (), w)" by (simp add: switch_eq)
next
  assume h: "cmd_sudo (priv_commands s) \<noteq> [] \<and> cmd_select (priv_commands s) \<noteq> []
        \<and> fst (query s w) = Return g"
  then show eq: "switch g cb s w = (Return (), snd (query s w))"
    by (cases "query s w") (simp add: switch_eq)
  show "pending (snd (switch g cb s w)) = pending w"
    by (simp add: eq query_pending)
  show "trace (snd (switch g cb s w)) = trace w
              \<or> trace (snd (switch g cb s w)) =
                 trace w @ [Exec (split_sp (cmd_select (priv_commands s) @ '' query''))]"
    using query_trace [of s w] by (simp add: eq)
qed

theorem switch_noop_witness:
  "cmd_sudo (priv_commands bare_switch) = [] \<and> cmd_select (priv_commands bare_switch) = []
   \<and> switch ''intel'' (Func ''cb'') bare_switch (world0 bare) = (Return (), world0 bare)
   \<and> cmd_sudo (priv_commands box_switch) \<noteq> [] \<and> cmd_select (priv_commands box_switch) \<noteq> []
   \<and> fst (query box_switch (world0 (box 0 ''nvidia''))) = Return ''nvidia''
   \<and> pending (snd (switch ''nvidia'' (Func ''cb'') box_switch (world0 (box 0 ''nvidia'')))) = []
   \<and> trace (snd (switch ''nvidia'' (Func ''cb'') box_switch (world0 (box 0 ''nvidia'')))) =
       [Exec [''/usr/bin/prime-select'', ''query'']]"
proof -
  have a: "cmd_sudo (priv_commands bare_switch) = []" "cmd_select (priv_commands bare_switch) = []"
    by (simp_all add: bare_switch_def)
  have b: "cmd_sudo (priv_commands box_switch) = ''/usr/bin/pkexec''"
          "cmd_select (priv_commands box_switch) = ''/usr/bin/prime-select''"
    by (simp_all add: box_switch_def)
  have t: "trim (''nvidia'' @ [CHR 0x0A]) = ''nvidia''"
    by code_simp
  have q: "query box_switch (world0 (box 0 ''nvidia'')) =
       (Return ''nvidia'',
        (world0 (box 0 ''nvidia''))\<lparr>trace := [Exec [''/usr/bin/prime-select'', ''query'']]\<rparr>)"
    using t by (simp add: query_eq b box_query)
  have "switch ''intel'' (Func ''cb'') bare_switch (world0 bare) = (Return (), world0 bare)"
    using switch_noop [of bare_switch "''intel''" "Func ''cb''" "world0 bare"] a by simp
  moreover have sw: "switch ''nvidia'' (Func ''cb'') box_switch (world0 (box 0 ''nvidia'')) =
      (Return (), snd (query box_switch (world0 (box 0 ''nvidia''))))"
    using switch_noop [of box_switch "''nvidia''" "Func ''cb''" "world0 (box 0 ''nvidia'')"]
    by (simp add: b q)
  moreover have "pending (snd (switch ''nvidia'' (Func ''cb'') box_switch (world0 (box 0 ''nvidia'')))) = []
     \<and> trace (snd (switch ''nvidia'' (Func ''cb'') box_switch (world0 (box 0 ''nvidia'')))) =
       [Exec [''/usr/bin/prime-select'', ''query'']]"
    by (simp add: sw q) (simp add: world0_def)
  ultimately show ?thesis using a b q by simp
qed

lemma priv_log_fields:
  "shell (priv_log m w) = shell w" "pending (priv_log m w) = pending w"
  "monitors (priv_log m w) = monitors w" "trace (priv_log m w) = trace w @ [Journal [''Prime.Switch'', m]]"
  by (simp_all add: priv_log_def)

lemma async_complete_Func:
  assumes "i < length (pending w)" and "pending w ! i = (c, Some (SwitchDone g (Func f)))"
  shows "trace (snd (async_complete i (Done st out err) w)) =
     trace w @
       [Journal [''Prime.Switch'',
                 if st = 0 then ''switched to '' @ g
                 else ''not switched to '' @ g @ '' ('' @ trim err @ '')''],
        Invoke f g (st = 0)]"
  using assms by (simp add: async_complete_def priv_log_def Let_def)

lemma async_complete_other:
  assumes "i < length (pending w)" and "pending w ! i = (c, Some (SwitchDone g cb))"
    and "\<And>f. cb \<noteq> Func f"
  shows "trace (snd (async_complete i (Done st out err) w)) =
     trace w @
       [Journal [''Prime.Switch'',
                 if st = 0 then ''switched to '' @ g
                 else ''not switched to '' @ g @ '' ('' @ trim err @ '')'']]"
  using assms(1,2) by (simp add: async_complete_def Let_def call_closure_other [OF assms(3)] del: call_closure.simps)

text \<open>
  The path on which the callback is reached. When both helpers are present, the current
  selection \<open>q\<close> differs from the target \<open>g\<close> and the switch command can be started,
  \<^verbatim>\<open>switch(g, cb)\<close> logs, starts \<^verbatim>\<open><sudo> <select> g\<close> and leaves it pending with its
  callback. When that child process completes and its output is read, the outcome is logged
  and a caller's function \<open>f\<close> is called with \<^verbatim>\<open>{gpu: g, result: true}\<close> for status zero
  and with \<^verbatim>\<open>{gpu: g, result: false}\<close> for any other status. When the caller gave no
  function, the outcome is logged only.
\<close>

lemma switch_completion:
  assumes "cmd_sudo (priv_commands s) \<noteq> []" and "cmd_select (priv_commands s) \<noteq> []"
    and "query s w = (Return q, w1)" and "q \<noteq> g"
    and "\<forall>e. shell w (split_sp (cmd_sudo (priv_commands s) @ '' '' @ cmd_select (priv_commands s)
                                   @ '' '' @ g)) \<noteq> SpawnError e"
  shows "\<exists>w2. switch g cb s w = (Return (), w2)
          \<and> pending w2 = pending w @ [(cmd_sudo (priv_commands s) @ '' '' @ cmd_select (priv_commands s)
                                          @ '' '' @ g, Some (SwitchDone g cb))]
          \<and> trace w2 = trace w1 @ [Journal [''Prime.Switch'', ''switching to '' @ g],
                                    ExecAsync (split_sp (cmd_sudo (priv_commands s) @ '' ''
                                                 @ cmd_select (priv_commands s) @ '' '' @ g))]
          \<and> (\<forall>f out err. cb = Func f \<longrightarrow>
                trace (snd (async_complete (length (pending w)) (Done 0 out err) w2)) =
                  trace w2 @ [Journal [''Prime.Switch'', ''switched to '' @ g], Invoke f g True])
          \<and> (\<forall>f st out err. cb = Func f \<and> st \<noteq> 0 \<longrightarrow>
                trace (snd (async_complete (length (pending w)) (Done st out err) w2)) =
                  trace w2 @ [Journal [''Prime.Switch'',
                                       ''not switched to '' @ g @ '' ('' @ trim err @ '')''],
                              Invoke f g False])
          \<and> ((\<forall>f. cb \<noteq> Func f) \<longrightarrow>
                (\<forall>st out err. trace (snd (async_complete (length (pending w)) (Done st out err) w2)) =
                   trace w2 @ [Journal [''Prime.Switch'',
                                        if st = 0 then ''switched to '' @ g
                                        else ''not switched to '' @ g @ '' ('' @ trim err @ '')'']]))"
proof -
  let ?c = "cmd_sudo (priv_commands s) @ '' '' @ cmd_select (priv_commands s) @ '' '' @ g"
  let ?w2 = "(priv_log (''switching to '' @ g) w1)\<lparr>trace := trace (priv_log (''switching to '' @ g) w1) @ [ExecAsync (split_sp ?c)],
              pending := pending (priv_log (''switching to '' @ g) w1) @ [(?c, Some (SwitchDone g cb))]\<rparr>"
  have w1: "shell w1 = shell w" "pending w1 = pending w"
    using query_shell [of s w] query_pending [of s w] assms(3) by simp_all
  have launched: "priv_shell_exec_async ?c (Some (SwitchDone g cb)) (priv_log (''switching to '' @ g) w1) = (Return (), ?w2)"
    using assms(5) by (simp add: priv_shell_exec_async_eq priv_log_fields w1 split: proc.splits)
  have sw: "switch g cb s w = (Return (), ?w2)"
    using assms(1-4) launched by (simp add: switch_eq)
  have pend: "pending ?w2 = pending w @ [(?c, Some (SwitchDone g cb))]"
    by (simp add: priv_log_fields w1)
  have tr: "trace ?w2 = trace w1 @ [Journal [''Prime.Switch'', ''switching to '' @ g], ExecAsync (split_sp ?c)]"
    by (simp add: priv_log_fields)
  have idx: "length (pending w) < length (pending ?w2)" "pending ?w2 ! length (pending w) = (?c, Some (SwitchDone g cb))"
    by (simp_all add: priv_log_fields w1)
  have ok: "\<forall>f out err. cb = Func f \<longrightarrow>
                trace (snd (async_complete (length (pending w)) (Done 0 out err) ?w2)) =
                  trace ?w2 @ [Journal [''Prime.Switch'', ''switched to '' @ g], Invoke f g True]"
    using async_complete_Func [OF idx(1), where st = 0] idx(2) by simp
  have bad: "\<forall>f st out err. cb = Func f \<and> st \<noteq> 0 \<longrightarrow>
                trace (snd (async_complete (length (pending w)) (Done st out err) ?w2)) =
                  trace ?w2 @ [Journal [''Prime.Switch'',
                                       ''not switched to '' @ g @ '' ('' @ trim err @ '')''],
                              Invoke f g False]"
    using async_complete_Func [OF idx(1)] idx(2) by simp
  have none: "(\<forall>f. cb \<noteq> Func f) \<longrightarrow>
                (\<forall>st out err. trace (snd (async_complete (length (pending w)) (Done st out err) ?w2)) =
                   trace ?w2 @ [Journal [''Prime.Switch'',
                                        if st = 0 then ''switched to '' @ g
                                        else ''not switched to '' @ g @ '' ('' @ trim err @ '')'']])"
  proof (intro impI allI)
    fix st out err
    assume nf: "\<forall>f. cb \<noteq> Func f"
    show "trace (snd (async_complete (length (pending w)) (Done st out err) ?w2)) =
       trace ?w2 @ [Journal [''Prime.Switch'',
                 if st = 0 then ''switched to '' @ g
                 else ''not switched to '' @ g @ '' ('' @ trim err @ '')'']]"
      using nf by (intro async_complete_other [OF idx]) simp
  qed
  from sw pend tr ok bad none show ?thesis by blast
qed

lemma switch_completion_example:
  "cmd_sudo (priv_commands box_switch) \<noteq> [] \<and> cmd_select (priv_commands box_switch) \<noteq> []
   \<and> fst (query box_switch (world0 (box 0 ''nvidia''))) = Return ''nvidia'' \<and> ''nvidia'' \<noteq> ''intel''
   \<and> shell (world0 (box 0 ''nvidia'')) [''/usr/bin/pkexec'', ''/usr/bin/prime-select'', ''intel''] =
       Exited 0 [] []
   \<and> pending (snd (switch ''intel'' (Func ''cb'') box_switch (world0 (box 0 ''nvidia'')))) =
       [(''/usr/bin/pkexec /usr/bin/prime-select intel'', Some (SwitchDone ''intel'' (Func ''cb'')))]
   \<and> trace (snd (async_complete 0 (Done 0 [] [])
        (snd (switch ''intel'' (Func ''cb'') box_switch (world0 (box 0 ''nvidia'')))))) =
       [Exec [''/usr/bin/prime-select'', ''query''],
        Journal [''Prime.Switch'', ''switching to intel''],
        ExecAsync [''/usr/bin/pkexec'', ''/usr/bin/prime-select'', ''intel''],
        Journal [''Prime.Switch'', ''switched to intel''],
        Invoke ''cb'' ''intel'' True]
   \<and> trace (snd (async_complete 0 (Done 126 [] ''denied'')
        (snd (switch ''intel'' (Func ''cb'') box_switch (world0 (box 0 ''nvidia'')))))) =
       [Exec [''/usr/bin/prime-select'', ''query''],
        Journal [''Prime.Switch'', ''switching to intel''],
        ExecAsync [''/usr/bin/pkexec'', ''/usr/bin/prime-select'', ''intel''],
        Journal [''Prime.Switch'', ''not switched to intel (denied)''],
        Invoke ''cb'' ''intel'' False]"
proof -
  let ?w = "world0 (box 0 ''nvidia'')"
  have b: "cmd_sudo (priv_commands box_switch) = ''/usr/bin/pkexec''"
          "cmd_select (priv_commands box_switch) = ''/usr/bin/prime-select''"
    by (simp_all add: box_switch_def)
  have t: "trim (''nvidia'' @ [CHR 0x0A]) = ''nvidia''" "trim ''denied'' = ''denied''"
    by code_simp+
  have q: "query box_switch ?w =
       (Return ''nvidia'', ?w\<lparr>trace := [Exec [''/usr/bin/prime-select'', ''query'']]\<rparr>)"
    using t by (simp add: query_eq b box_query)
  have sh: "shell ?w [''/usr/bin/pkexec'', ''/usr/bin/prime-select'', ''intel''] = Exited 0 [] []"
    by (simp add: world0_def box_def)
  have p0: "pending ?w = []" "trace ?w = []"
    by (simp_all add: world0_def)
  have ne: "''nvidia'' \<noteq> ''intel''" by simp
  have started: "\<forall>e. shell ?w (split_sp (cmd_sudo (priv_commands box_switch) @ '' ''
                     @ cmd_select (priv_commands box_switch) @ '' '' @ ''intel'')) \<noteq> SpawnError e"
    by (simp add: b sh)
  have nonempty: "cmd_sudo (priv_commands box_switch) \<noteq> []" "cmd_select (priv_commands box_switch) \<noteq> []"
    by (simp_all add: b)
  note sc = switch_completion [OF nonempty q ne started, of "Func ''cb''"]
  have pend: "pending (snd (switch ''intel'' (Func ''cb'') box_switch ?w)) =
       [(''/usr/bin/pkexec /usr/bin/prime-select intel'', Some (SwitchDone ''intel'' (Func ''cb'')))]"
    using sc by (auto simp: b p0)
  have ok: "trace (snd (async_complete 0 (Done 0 [] []) (snd (switch ''intel'' (Func ''cb'') box_switch ?w)))) =
       [Exec [''/usr/bin/prime-select'', ''query''],
        Journal [''Prime.Switch'', ''switching to intel''],
        ExecAsync [''/usr/bin/pkexec'', ''/usr/bin/prime-select'', ''intel''],
        Journal [''Prime.Switch'', ''switched to intel''],
        Invoke ''cb'' ''intel'' True]"
    using sc by (auto simp: b p0)
  have bad: "trace (snd (async_complete 0 (Done 126 [] ''denied'') (snd (switch ''intel'' (Func ''cb'') box_switch ?w)))) =
       [Exec [''/usr/bin/prime-select'', ''query''],
        Journal [''Prime.Switch'', ''switching to intel''],
        ExecAsync [''/usr/bin/pkexec'', ''/usr/bin/prime-select'', ''intel''],
        Journal [''Prime.Switch'', ''not switched to intel (denied)''],
        Invoke ''cb'' ''intel'' False]"
    using sc t(2) by (auto simp: b p0)
  show ?thesis
    using nonempty q sh pend ok bad by simp
qed

lemma async_complete_Unread:
  "i < length (pending w) \<Longrightarrow>
   async_complete i (Unread st e) w =
     (Throw e, w\<lparr>pending := take i (pending w) @ drop (Suc i) (pending w)\<rparr>)"
  by (simp add: async_complete_def)

text \<open>
  Claim C4. The claim is that the callback is called whenever the switch command completes,
  with \<^verbatim>\<open>result: true\<close> for exit status zero. The completion function reads the exit
  status and then the output, with no \<^verbatim>\<open>try\<close> around it. On the example machine
  \<^verbatim>\<open>switch('intel', cb)\<close> starts the command; when the command exits with status zero and
  its output cannot be read, the completion function throws, the command is no longer pending,
  and the effects are those of the launch alone: nothing is logged and \<open>cb\<close> is not called.
\<close>

theorem switch_callback_unread:
  "pending (snd (switch ''intel'' (Func ''cb'') box_switch (world0 (box 0 ''nvidia'')))) =
     [(''/usr/bin/pkexec /usr/bin/prime-select intel'', Some (SwitchDone ''intel'' (Func ''cb'')))]
   \<and> fst (async_complete 0 (Unread 0 ''Invalid UTF-8 in child stdout'')
          (snd (switch ''intel'' (Func ''cb'') box_switch (world0 (box 0 ''nvidia''))))) =
       Throw ''Invalid UTF-8 in child stdout''
   \<and> pending (snd (async_complete 0 (Unread 0 ''Invalid UTF-8 in child stdout'')
          (snd (switch ''intel'' (Func ''cb'') box_switch (world0 (box 0 ''nvidia'')))))) = []
   \<and> trace (snd (async_complete 0 (Unread 0 ''Invalid UTF-8 in child stdout'')
          (snd (switch ''intel'' (Func ''cb'') box_switch (world0 (box 0 ''nvidia'')))))) =
       [Exec [''/usr/bin/prime-select'', ''query''],
        Journal [''Prime.Switch'', ''switching to intel''],
        ExecAsync [''/usr/bin/pkexec'', ''/usr/bin/prime-select'', ''intel'']]"
proof -
  let ?w = "world0 (box 0 ''nvidia'')"
  let ?w2 = "snd (switch ''intel'' (Func ''cb'') box_switch ?w)"
  have b: "cmd_sudo (priv_commands box_switch) = ''/usr/bin/pkexec''"
          "cmd_select (priv_commands box_switch) = ''/usr/bin/prime-select''"
    by (simp_all add: box_switch_def)
  have t: "trim (''nvidia'' @ [CHR 0x0A]) = ''nvidia''"
    by code_simp
  have q: "query box_switch ?w =
       (Return ''nvidia'', ?w\<lparr>trace := [Exec [''/usr/bin/prime-select'', ''query'']]\<rparr>)"
    using t by (simp add: query_eq b box_query)
  have sh: "shell ?w [''/usr/bin/pkexec'', ''/usr/bin/prime-select'', ''intel''] = Exited 0 [] []"
    by (simp add: world0_def box_def)
  have launched: "priv_shell_exec_async ''/usr/bin/pkexec /usr/bin/prime-select intel''
        (Some (SwitchDone ''intel'' (Func ''cb'')))
        (priv_log ''switching to intel'' (?w\<lparr>trace := [Exec [''/usr/bin/prime-select'', ''query'']]\<rparr>)) =
     (Return (),
      ?w\<lparr>trace := [Exec [''/usr/bin/prime-select'', ''query''],
                     Journal [''Prime.Switch'', ''switching to intel''],
                     ExecAsync [''/usr/bin/pkexec'', ''/usr/bin/prime-select'', ''intel'']],
          pending := [(''/usr/bin/pkexec /usr/bin/prime-select intel'',
                       Some (SwitchDone ''intel'' (Func ''cb'')))]\<rparr>)"
    using sh by (simp add: priv_shell_exec_async_eq priv_log_def) (simp add: world0_def)
  have w2: "?w2 =
      ?w\<lparr>trace := [Exec [''/usr/bin/prime-select'', ''query''],
                     Journal [''Prime.Switch'', ''switching to intel''],
                     ExecAsync [''/usr/bin/pkexec'', ''/usr/bin/prime-select'', ''intel'']],
          pending := [(''/usr/bin/pkexec /usr/bin/prime-select intel'',
                       Some (SwitchDone ''intel'' (Func ''cb'')))]\<rparr>"
    using launched by (simp add: switch_eq b q)
  have pend: "pending ?w2 = [(''/usr/bin/pkexec /usr/bin/prime-select intel'',
                       Some (SwitchDone ''intel'' (Func ''cb'')))]"
    and tr: "trace ?w2 = [Exec [''/usr/bin/prime-select'', ''query''],
                     Journal [''Prime.Switch'', ''switching to intel''],
                     ExecAsync [''/usr/bin/pkexec'', ''/usr/bin/prime-select'', ''intel'']]"
    by (simp_all add: w2)
  have "0 < length (pending ?w2)" by (simp add: pend)
  then have "async_complete 0 (Unread 0 ''Invalid UTF-8 in child stdout'') ?w2 =
     (Throw ''Invalid UTF-8 in child stdout'',
      ?w2\<lparr>pending := take 0 (pending ?w2) @ drop (Suc 0) (pending ?w2)\<rparr>)"
    by (rule async_complete_Unread)
  then show ?thesis by (simp add: pend tr)
qed

section \<open>Monitoring\<close>

lemma fold_max_ge: "a \<le> fold max xs (a::nat)"
proof (induction xs arbitrary: a)
  case Nil
  show ?case by simp
next
  case (Cons x xs)
  have "a \<le> max x a" by simp
  also have "max x a \<le> fold max xs (max x a)" by (rule Cons.IH)
  finally show ?case by simp
qed

lemma fold_max_mem: "x \<in> set xs \<Longrightarrow> x \<le> fold max xs (a::nat)"
proof (induction xs arbitrary: a)
  case Nil
  then show ?case by simp
next
  case (Cons y ys)
  show ?case
  proof (cases "x = y")
    case True
    have "x \<le> max y a" using True by simp
    also have "max y a \<le> fold max ys (max y a)" by (rule fold_max_ge)
    finally show ?thesis by simp
  next
    case False
    with Cons.prems have "x \<in> set ys" by simp
    then show ?thesis using Cons.IH by simp
  qed
qed

lemma fresh_handle_new: "m \<in> set (monitors w) \<Longrightarrow> fst m \<noteq> fresh_handle w"
proof -
  assume "m \<in> set (monitors w)"
  then have "fst m \<in> set (map fst (monitors w))" by simp
  then have "fst m \<le> fold max (map fst (monitors w)) 0" by (rule fold_max_mem)
  then show ?thesis by (simp add: fresh_handle_def)
qed

lemma connect_others:
  "\<forall>m \<in> set ms. fst m \<noteq> h \<Longrightarrow>
   map (\<lambda>(h', p, sigs). if h' = h then (h', p, sigs @ [sig]) else (h', p, sigs)) ms = ms"
  by (induction ms) auto

lemma cancel_others:
  "\<forall>m \<in> set ms. fst m \<noteq> h \<Longrightarrow> filter (\<lambda>(h', p, sigs). h' \<noteq> h) ms = ms"
  by (induction ms) auto

lemma monitor_unwatched:
  assumes "priv_listener s = None"
  shows "monitor s w =
     (s\<lparr>priv_listener := Some (fresh_handle w)\<rparr>,
      w\<lparr>monitors := monitors w @ [(fresh_handle w, index, [''changed''])]\<rparr>)"
proof -
  have "\<forall>m \<in> set (monitors w). fst m \<noteq> fresh_handle w"
    using fresh_handle_new by blast
  then have "map (\<lambda>(h', p, sigs). if h' = fresh_handle w then (h', p, sigs @ [''changed''])
                                else (h', p, sigs)) (monitors w) = monitors w"
    by (rule connect_others)
  with assms show ?thesis
    by (simp add: monitor_def monitor_file_def connect_def)
qed

lemma subscriptions_append:
  "subscriptions p (w\<lparr>monitors := monitors w @ [(h, p, [''changed''])]\<rparr>) = subscriptions p w @ [h]"
  by (simp add: subscriptions_def)

text \<open>
  Claim C9. On an instance that is not watching, \<^verbatim>\<open>monitor()\<close> creates one monitor of the
  index file with the handler connected, and a second \<^verbatim>\<open>monitor()\<close> changes nothing: the
  live monitors are those from before and this one, so exactly one subscription has been added.
  \<^verbatim>\<open>unmonitor()\<close> after that cancels the monitor and brings back the instance and the world
  from before; \<^verbatim>\<open>unmonitor()\<close> on an instance that is not watching changes nothing.
\<close>

theorem monitor_unmonitor:
  assumes "priv_listener s = None"
  shows "\<exists>s1 w1. monitor s w = (s1, w1)
           \<and> monitor s1 w1 = (s1, w1)
           \<and> priv_listener s1 = Some (fresh_handle w)
           \<and> monitors w1 = monitors w @ [(fresh_handle w, index, [''changed''])]
           \<and> subscriptions index w1 = subscriptions index w @ [fresh_handle w]
           \<and> unmonitor s1 w1 = (s, w)
           \<and> unmonitor s w = (s, w)"
proof -
  let ?h = "fresh_handle w"
  let ?s1 = "s\<lparr>priv_listener := Some ?h\<rparr>"
  let ?w1 = "w\<lparr>monitors := monitors w @ [(?h, index, [''changed''])]\<rparr>"
  have first: "monitor s w = (?s1, ?w1)"
    using assms by (rule monitor_unwatched)
  have second: "monitor ?s1 ?w1 = (?s1, ?w1)"
    by (simp add: monitor_def)
  have subs: "subscriptions index ?w1 = subscriptions index w @ [?h]"
    by (rule subscriptions_append)
  have "filter (\<lambda>(h', p, sigs). h' \<noteq> ?h) (monitors w) = monitors w"
    using fresh_handle_new [of _ w] by (intro cancel_others) blast
  then have undone: "unmonitor ?s1 ?w1 = (s, w)"
    using assms by (simp add: unmonitor_def cancel_def)
  have idle: "unmonitor s w = (s, w)"
    using assms by (simp add: unmonitor_def)
  from first second subs undone idle show ?thesis by simp
qed

theorem monitor_unmonitor_witness:
  "priv_listener box_switch = None
   \<and> subscriptions index (world0 (box 0 ''nvidia'')) = []
   \<and> (case monitor box_switch (world0 (box 0 ''nvidia'')) of
         (s1, w1) \<Rightarrow> (case monitor s1 w1 of
            (s2, w2) \<Rightarrow> priv_listener s2 = Some 1
               \<and> monitors w2 = [(1, ''/etc/prime-discrete'', [''changed''])]
               \<and> subscriptions index w2 = [1]
               \<and> unmonitor s2 w2 = (box_switch, world0 (box 0 ''nvidia''))))
   \<and> unmonitor box_switch (world0 (box 0 ''nvidia'')) = (box_switch, world0 (box 0 ''nvidia''))"
proof -
  have a: "priv_listener box_switch = None" by (simp add: box_switch_def)
  have b: "monitors (world0 (box 0 ''nvidia'')) = []" "fresh_handle (world0 (box 0 ''nvidia'')) = 1"
    "subscriptions index (world0 (box 0 ''nvidia'')) = []"
    by (simp_all add: world0_def fresh_handle_def subscriptions_def)
  show ?thesis
    using monitor_unmonitor [OF a, of "world0 (box 0 ''nvidia'')"] a b
    by (auto simp: index_def)
qed

section \<open>Change events\<close>

lemma gpu_returns: "\<exists>v s' w'. gpu s w = (Return v, s', w')"
proof (cases "truthy (priv_gpu s)")
  case True
  then show ?thesis by (simp add: gpu_cached)
next
  case False
  show ?thesis
  proof (cases "cmd_management (priv_commands s) = []")
    case True
    with False show ?thesis by (simp add: gpu_unknown)
  next
    case present: False
    obtain r w' where "priv_shell_exec (cmd_management (priv_commands s) @ '' -L'') w = (Return r, w')"
      using priv_shell_exec_returns by blast
    with False present show ?thesis
      using gpu_probe by blast
  qed
qed

lemma priv_handle_listener_eq:
  "gpu s w = (Return v, s', w') \<Longrightarrow>
   priv_handle_listener s w = (Return (), s', w'\<lparr>trace := trace w' @ [Emit ''gpu-change'' v]\<rparr>)"
  by (simp add: priv_handle_listener_def)

text \<open>
  Claim C6, amended. When the index file has one live subscription and a change event arrives,
  the handler reads the getter \<^verbatim>\<open>gpu\<close> and emits \<^verbatim>\<open>gpu-change\<close> with the value read.
  When a value is cached, that is the cached value, and nothing is run; the heuristic runs only
  when no value is cached.
\<close>

theorem change_event_reads_getter:
  assumes "subscriptions index w = [h]"
  shows "\<exists>v s' w'. gpu s w = (Return v, s', w')
           \<and> file_changed index s w = (s', w'\<lparr>trace := trace w' @ [Emit ''gpu-change'' v]\<rparr>)
           \<and> (truthy (priv_gpu s) \<longrightarrow> v = priv_gpu s \<and> s' = s \<and> w' = w)"
proof -
  obtain v s' w' where g: "gpu s w = (Return v, s', w')"
    using gpu_returns by blast
  have "file_changed index s w = (s', w'\<lparr>trace := trace w' @ [Emit ''gpu-change'' v]\<rparr>)"
    using assms by (simp add: file_changed_def priv_handle_listener_eq [OF g])
  moreover have "truthy (priv_gpu s) \<longrightarrow> v = priv_gpu s \<and> s' = s \<and> w' = w"
    using g by (auto simp: gpu_cached)
  ultimately show ?thesis using g by blast
qed

lemma nvidia_world_subscriptions: "subscriptions index (nvidia_world n) = [1]"
  by (simp add: subscriptions_def nvidia_world_def index_def)

lemma nvidia_switch_cached: "truthy (priv_gpu nvidia_switch)" "priv_gpu nvidia_switch = Str ''nvidia''"
  by (simp_all add: nvidia_switch_def)

theorem change_event_reads_getter_witness:
  "subscriptions index (nvidia_world 9) = [1]
   \<and> file_changed index nvidia_switch (nvidia_world 9) =
       (nvidia_switch,
        (nvidia_world 9)\<lparr>trace := trace (nvidia_world 9) @ [Emit ''gpu-change'' (Str ''nvidia'')]\<rparr>)"
  using change_event_reads_getter [OF nvidia_world_subscriptions, of nvidia_switch 9]
    nvidia_world_subscriptions [of 9] nvidia_switch_cached
  by auto

lemma nvidia_world_smi:
  "priv_shell_exec ''/usr/bin/nvidia-smi -L'' (nvidia_world n) =
     (Return \<lparr>status = n, stdin = ''/usr/bin/nvidia-smi -L'', stdout = [], stderr = []\<rparr>,
      (nvidia_world n)\<lparr>trace := trace (nvidia_world n) @ [Exec [''/usr/bin/nvidia-smi'', ''-L'']]\<rparr>)"
  by (simp add: priv_shell_exec_eq nvidia_world_def box_def)

text \<open>
  Claim C6 as stated fails: the instance has read \<^verbatim>\<open>'nvidia'\<close> and is watching; the helper
  now exits with status 9, so that running the heuristic again would give \<^verbatim>\<open>'intel'\<close>; on a
  change event the handler runs nothing and emits \<^verbatim>\<open>'nvidia'\<close>.
\<close>

theorem change_event_stale_counterexample:
  "priv_listener nvidia_switch = Some 1
   \<and> subscriptions index (nvidia_world 9) = [1]
   \<and> fst (gpu (nvidia_switch\<lparr>priv_gpu := Null\<rparr>) (nvidia_world 9)) = Return (Str ''intel'')
   \<and> file_changed index nvidia_switch (nvidia_world 9) =
       (nvidia_switch,
        (nvidia_world 9)\<lparr>trace := trace (nvidia_world 9) @ [Emit ''gpu-change'' (Str ''nvidia'')]\<rparr>)"
proof -
  have a: "\<not> truthy (priv_gpu (nvidia_switch\<lparr>priv_gpu := Null\<rparr>))"
    by simp
  have m: "cmd_management (priv_commands nvidia_switch) = ''/usr/bin/nvidia-smi''"
    by (simp add: nvidia_switch_def box_switch_def)
  have ne: "cmd_management (priv_commands (nvidia_switch\<lparr>priv_gpu := Null\<rparr>)) \<noteq> []"
    by (simp add: m)
  have e: "priv_shell_exec (cmd_management (priv_commands (nvidia_switch\<lparr>priv_gpu := Null\<rparr>)) @ '' -L'')
             (nvidia_world 9) =
     (Return \<lparr>status = 9, stdin = ''/usr/bin/nvidia-smi -L'', stdout = [], stderr = []\<rparr>,
      (nvidia_world 9)\<lparr>trace := trace (nvidia_world 9) @ [Exec [''/usr/bin/nvidia-smi'', ''-L'']]\<rparr>)"
    by (simp add: m nvidia_world_smi)
  have "fst (gpu (nvidia_switch\<lparr>priv_gpu := Null\<rparr>) (nvidia_world 9)) = Return (Str ''intel'')"
    using gpu_probe [OF a ne e] by simp
  moreover have "file_changed index nvidia_switch (nvidia_world 9) =
       (nvidia_switch,
        (nvidia_world 9)\<lparr>trace := trace (nvidia_world 9) @ [Emit ''gpu-change'' (Str ''nvidia'')]\<rparr>)"
    by (simp add: file_changed_def nvidia_world_subscriptions
          priv_handle_listener_eq [OF gpu_cached [OF nvidia_switch_cached(1)]] nvidia_switch_cached(2))
  moreover have "priv_listener nvidia_switch = Some 1"
    by (simp add: nvidia_switch_def)
  ultimately show ?thesis by (simp add: nvidia_world_subscriptions)
qed

text \<open>
  The instance and the world of this example are reached from the constructor by reading
  \<^verbatim>\<open>gpu\<close> and calling \<^verbatim>\<open>monitor()\<close>.
\<close>

lemma trim_paths:
  "trim (''/usr/bin/pkexec'' @ [CHR 0x0A]) = ''/usr/bin/pkexec''"
  "trim (''/usr/bin/prime-select'' @ [CHR 0x0A]) = ''/usr/bin/prime-select''"
  "trim (''/usr/bin/nvidia-smi'' @ [CHR 0x0A]) = ''/usr/bin/nvidia-smi''"
  "trim (''/usr/bin/nvidia-settings'' @ [CHR 0x0A]) = ''/usr/bin/nvidia-settings''"
  by code_simp+

lemma box_which:
  "priv_which ''pkexec'' (world0 (box n q)) =
     (Return ''/usr/bin/pkexec'', (world0 (box n q))\<lparr>trace := [Exec [''which'', ''pkexec'']]\<rparr>)"
  using trim_paths(1)
  by (simp add: priv_which_def and_then_def priv_shell_exec_eq world0_def box_def str_or_def)

lemma box_constructor:
  "constructor (world0 (box n q)) =
     (Return box_switch,
      (world0 (box n q))\<lparr>trace := [Exec [''which'', ''pkexec''], Exec [''which'', ''prime-select''],
               Exec [''which'', ''nvidia-smi''], Exec [''which'', ''nvidia-settings'']]\<rparr>)"
  using trim_paths
  by (simp add: constructor_def box_which and_then_def)
     (simp add: priv_which_def and_then_def priv_shell_exec_eq world0_def box_def str_or_def
        box_switch_def)

lemma nvidia_switch_reached:
  "run [(box 0 ''nvidia'', CallGpu), (box 0 ''nvidia'', CallMonitor)] box_switch
       (snd (constructor (world0 (box 0 ''nvidia'')))) = (nvidia_switch, nvidia_world 0)"
proof -
  let ?w = "\<lparr>shell = box 0 ''nvidia'',
             trace = [Exec [''which'', ''pkexec''], Exec [''which'', ''prime-select''],
                      Exec [''which'', ''nvidia-smi''], Exec [''which'', ''nvidia-settings'']],
             pending = [], monitors = []\<rparr>"
  let ?w' = "\<lparr>shell = box 0 ''nvidia'',
             trace = [Exec [''which'', ''pkexec''], Exec [''which'', ''prime-select''],
                      Exec [''which'', ''nvidia-smi''], Exec [''which'', ''nvidia-settings''],
                      Exec [''/usr/bin/nvidia-smi'', ''-L'']],
             pending = [], monitors = []\<rparr>"
  have c: "snd (constructor (world0 (box 0 ''nvidia''))) = ?w"
    by (simp add: box_constructor) (simp add: world0_def)
  have a: "\<not> truthy (priv_gpu box_switch)" "cmd_management (priv_commands box_switch) \<noteq> []"
    and m: "cmd_management (priv_commands box_switch) = ''/usr/bin/nvidia-smi''"
    by (simp_all add: box_switch_def)
  have e: "priv_shell_exec (cmd_management (priv_commands box_switch) @ '' -L'') ?w =
     (Return \<lparr>status = 0, stdin = ''/usr/bin/nvidia-smi -L'', stdout = [], stderr = []\<rparr>, ?w')"
    by (simp add: m priv_shell_exec_eq box_def)
  have g: "gpu box_switch ?w = (Return (Str ''nvidia''), box_switch\<lparr>priv_gpu := Str ''nvidia''\<rparr>, ?w')"
    using gpu_probe [OF a e] by simp
  have mon: "monitor (box_switch\<lparr>priv_gpu := Str ''nvidia''\<rparr>) ?w' = (nvidia_switch, nvidia_world 0)"
    by (simp add: monitor_def monitor_file_def connect_def fresh_handle_def
          nvidia_switch_def nvidia_world_def index_def box_switch_def)
  have "run [(box 0 ''nvidia'', CallGpu), (box 0 ''nvidia'', CallMonitor)] box_switch ?w =
        (nvidia_switch, nvidia_world 0)"
    by (simp add: g mon)
  then show ?thesis by (simp only: c)
qed

section \<open>The cached value\<close>

text \<open>
  Once a value is cached, no step of a history changes it: not a method or getter of the
  class, not the completion of a child process, not a change event.
\<close>

lemma priv_handle_listener_cached:
  "truthy (priv_gpu s) \<Longrightarrow> fst (snd (priv_handle_listener s w)) = s"
  by (simp add: priv_handle_listener_def gpu_cached)

lemma deliver_cached: "truthy (priv_gpu s) \<Longrightarrow> fst (deliver hs s w) = s"
proof (induction hs arbitrary: w)
  case Nil
  show ?case by simp
next
  case (Cons h hs)
  obtain r s' w' where step: "priv_handle_listener s w = (r, s', w')"
    by (cases "priv_handle_listener s w") auto
  with Cons.prems have "s' = s"
    using priv_handle_listener_cached [of s w] by simp
  with step Cons show ?case by simp
qed

lemma invoke_keeps_gpu:
  assumes "truthy (priv_gpu s)"
  shows "priv_gpu (fst (invoke c s w)) = priv_gpu s"
proof (cases c)
  case CallGpu
  with assms show ?thesis by (simp add: gpu_cached)
next
  case CallMonitor
  then show ?thesis by (simp add: monitor_def split: prod.splits)
next
  case CallUnmonitor
  then show ?thesis by (simp add: unmonitor_def split: option.splits)
next
  case CallDestroy
  then show ?thesis by (simp add: destroy_def unmonitor_def split: option.splits)
next
  case CallHandleListener
  with assms show ?thesis by (simp add: priv_handle_listener_cached)
next
  case (FileChanged p)
  with assms show ?thesis by (simp add: file_changed_def deliver_cached)
qed simp_all

lemma run_keeps_gpu:
  "truthy (priv_gpu s) \<Longrightarrow> priv_gpu (fst (run steps s w)) = priv_gpu s"
proof (induction steps arbitrary: s w)
  case Nil
  show ?case by simp
next
  case (Cons step steps)
  obtain sh c where step: "step = (sh, c)" by (cases step)
  obtain s' w' where inv: "invoke c s (w\<lparr>shell := sh\<rparr>) = (s', w')"
    by (cases "invoke c s (w\<lparr>shell := sh\<rparr>)")
  have kept: "priv_gpu s' = priv_gpu s"
    using invoke_keeps_gpu [OF Cons.prems, of c "w\<lparr>shell := sh\<rparr>"] inv by simp
  then have "truthy (priv_gpu s')" using Cons.prems by simp
  then have "priv_gpu (fst (run steps s' w')) = priv_gpu s'" by (rule Cons.IH)
  with kept step inv show ?case by simp
qed

lemma gpu_first_value:
  assumes "\<not> truthy (priv_gpu s)" and "gpu s w = (r, s1, w1)"
  shows "\<exists>v. (v = ''intel'' \<or> v = ''nvidia'' \<or> v = ''unknown'') \<and> r = Return (Str v) \<and> priv_gpu s1 = Str v"
proof (cases "cmd_management (priv_commands s) = []")
  case True
  from gpu_unknown [OF assms(1) True, of w] assms(2)
  have "r = Return (Str ''unknown'') \<and> priv_gpu s1 = Str ''unknown''" by auto
  then show ?thesis by blast
next
  case False
  obtain e w' where "priv_shell_exec (cmd_management (priv_commands s) @ '' -L'') w = (Return e, w')"
    using priv_shell_exec_returns by blast
  note probe = gpu_probe [OF assms(1) False this]
  show ?thesis
  proof (cases "status e = 0")
    case True
    with probe assms(2) have "r = Return (Str ''nvidia'') \<and> priv_gpu s1 = Str ''nvidia''" by auto
    then show ?thesis by blast
  next
    case False
    with probe assms(2) have "r = Return (Str ''intel'') \<and> priv_gpu s1 = Str ''intel''" by auto
    then show ?thesis by blast
  qed
qed

text \<open>
  Claim C2. When the getter \<^verbatim>\<open>gpu\<close> computes a value on an instance that has none cached,
  the value is one of \<^verbatim>\<open>'intel'\<close>, \<^verbatim>\<open>'nvidia'\<close>, \<^verbatim>\<open>'unknown'\<close>; after any history that
  follows, with the helpers behaving in any way at each step, the instance still holds that
  value, and a read of the getter in any world returns it and changes nothing.
\<close>

theorem gpu_memoized:
  assumes "\<not> truthy (priv_gpu s)" and "gpu s w = (r, s1, w1)" and "run steps s1 w1 = (s2, w2)"
  shows "\<exists>v. (v = ''intel'' \<or> v = ''nvidia'' \<or> v = ''unknown'')
           \<and> r = Return (Str v) \<and> priv_gpu s1 = Str v \<and> priv_gpu s2 = Str v
           \<and> (\<forall>w'. gpu s2 w' = (Return (Str v), s2, w'))"
proof -
  obtain v where v: "v = ''intel'' \<or> v = ''nvidia'' \<or> v = ''unknown''"
    and r: "r = Return (Str v)" and s1: "priv_gpu s1 = Str v"
    using gpu_first_value [OF assms(1,2)] by blast
  have cached: "truthy (priv_gpu s1)"
    using v s1 by auto
  have s2: "priv_gpu s2 = Str v"
    using run_keeps_gpu [OF cached, of steps w1] assms(3) s1 by simp
  then have "truthy (priv_gpu s2)"
    using v by auto
  then have "\<forall>w'. gpu s2 w' = (Return (Str v), s2, w')"
    using s2 by (simp add: gpu_cached)
  with v r s1 s2 show ?thesis by blast
qed

theorem gpu_memoized_witness:
  "\<not> truthy (priv_gpu box_switch)
   \<and> fst (gpu box_switch (world0 (box 0 ''nvidia''))) = Return (Str ''nvidia'')
   \<and> fst (gpu (fst (run [(box 9 ''intel'', CallMonitor), (box 9 ''intel'', FileChanged index),
                         (box 9 ''intel'', CallSwitch ''nvidia'' (Func ''cb'')),
                         (box 9 ''intel'', CallUnmonitor), (bare, CallQuery)]
                     (fst (snd (gpu box_switch (world0 (box 0 ''nvidia'')))))
                     (snd (snd (gpu box_switch (world0 (box 0 ''nvidia'')))))))
            (world0 (box 9 ''intel''))) = Return (Str ''nvidia'')"
proof -
  let ?steps = "[(box 9 ''intel'', CallMonitor), (box 9 ''intel'', FileChanged index),
                         (box 9 ''intel'', CallSwitch ''nvidia'' (Func ''cb'')),
                         (box 9 ''intel'', CallUnmonitor), (bare, CallQuery)]"
  let ?g = "gpu box_switch (world0 (box 0 ''nvidia''))"
  have a: "\<not> truthy (priv_gpu box_switch)"
    and m: "cmd_management (priv_commands box_switch) \<noteq> []"
           "cmd_management (priv_commands box_switch) = ''/usr/bin/nvidia-smi''"
    by (simp_all add: box_switch_def)
  have first: "fst ?g = Return (Str ''nvidia'')"
    using gpu_probe [OF a m(1), of "world0 (box 0 ''nvidia'')"] by (simp add: m(2) box_smi)
  have g: "?g = (fst ?g, fst (snd ?g), snd (snd ?g))" by simp
  have r: "run ?steps (fst (snd ?g)) (snd (snd ?g)) =
           (fst (run ?steps (fst (snd ?g)) (snd (snd ?g))), snd (run ?steps (fst (snd ?g)) (snd (snd ?g))))"
    by simp
  from gpu_memoized [OF a g r] first a show ?thesis
    by auto
qed

section \<open>Helpers that are not installed\<close>

lemma trim_Nil: "trim [] = []"
  by code_simp

lemma priv_which_eq:
  "priv_which c w =
     (case shell w (split_sp (''which '' @ c)) of
        SpawnError e \<Rightarrow> (Return (trim e), w)
      | CommError e \<Rightarrow> (Return (trim e), w\<lparr>trace := trace w @ [Exec (split_sp (''which '' @ c))]\<rparr>)
      | Exited st out err \<Rightarrow>
          (Return (str_or (trim out) (trim err)),
           w\<lparr>trace := trace w @ [Exec (split_sp (''which '' @ c))]\<rparr>))"
  by (simp add: priv_which_def and_then_def priv_shell_exec_eq str_or_def trim_Nil split: proc.splits)

lemma priv_which_runs:
  "\<exists>p w'. priv_which c w = (Return p, w') \<and> shell w' = shell w
          \<and> (prints_nothing (shell w (split_sp (''which '' @ c))) \<longrightarrow> p = [])"
  by (simp add: priv_which_eq prints_nothing_def str_or_def split: proc.splits)

lemma constructor_fields:
  "\<exists>s w'. constructor w = (Return s, w') \<and> priv_gpu s = Null \<and> priv_listener s = None
     \<and> (prints_nothing (shell w [''which'', ''pkexec'']) \<and> prints_nothing (shell w [''which'', ''gksudo''])
          \<longrightarrow> cmd_sudo (priv_commands s) = [])
     \<and> (prints_nothing (shell w [''which'', ''prime-select'']) \<longrightarrow> cmd_select (priv_commands s) = [])
     \<and> (prints_nothing (shell w [''which'', ''nvidia-smi'']) \<longrightarrow> cmd_management (priv_commands s) = [])
     \<and> (prints_nothing (shell w [''which'', ''nvidia-settings'']) \<longrightarrow> cmd_settings (priv_commands s) = [])"
proof -
  obtain p1 w1 where 1: "priv_which ''pkexec'' w = (Return p1, w1)" and s1: "shell w1 = shell w"
    and n1: "prints_nothing (shell w [''which'', ''pkexec'']) \<longrightarrow> p1 = []"
    using priv_which_runs [of "''pkexec''" w] by auto
  obtain p2' w2' where 2: "priv_which ''gksudo'' w1 = (Return p2', w2')" and s2': "shell w2' = shell w"
    and n2': "prints_nothing (shell w [''which'', ''gksudo'']) \<longrightarrow> p2' = []"
    using priv_which_runs [of "''gksudo''" w1] s1 by auto
  define p2 where "p2 = (if p1 \<noteq> [] then p1 else p2')"
  define w2 where "w2 = (if p1 \<noteq> [] then w1 else w2')"
  have s2: "shell w2 = shell w" by (simp add: w2_def s1 s2')
  have n2: "prints_nothing (shell w [''which'', ''pkexec'']) \<and> prints_nothing (shell w [''which'', ''gksudo''])
          \<longrightarrow> p2 = []"
    using n1 n2' by (simp add: p2_def)
  have sudo: "(if p1 \<noteq> [] then (Return p1, w1) else priv_which ''gksudo'' w1) = (Return p2, w2)"
    by (simp add: p2_def w2_def 2)
  obtain p3 w3 where 3: "priv_which ''prime-select'' w2 = (Return p3, w3)" and s3: "shell w3 = shell w"
    and n3: "prints_nothing (shell w [''which'', ''prime-select'']) \<longrightarrow> p3 = []"
    using priv_which_runs [of "''prime-select''" w2] s2 by auto
  obtain p4 w4 where 4: "priv_which ''nvidia-smi'' w3 = (Return p4, w4)" and s4: "shell w4 = shell w"
    and n4: "prints_nothing (shell w [''which'', ''nvidia-smi'']) \<longrightarrow> p4 = []"
    using priv_which_runs [of "''nvidia-smi''" w3] s3 by auto
  obtain p5 w5 where 5: "priv_which ''nvidia-settings'' w4 = (Return p5, w5)"
    and n5: "prints_nothing (shell w [''which'', ''nvidia-settings'']) \<longrightarrow> p5 = []"
    using priv_which_runs [of "''nvidia-settings''" w4] s4 by auto
  have "constructor w =
     (Return \<lparr>priv_commands = \<lparr>cmd_sudo = p2, cmd_select = p3, cmd_management = p4, cmd_settings = p5\<rparr>,
              priv_gpu = Null, priv_listener = None\<rparr>, w5)"
    unfolding constructor_def and_then_def 1 prod.case completion.case sudo 3 4 5 ..
  then show ?thesis using n2 n3 n4 n5 by simp
qed

lemma settings_eq:
  "settings s w =
     (if cmd_settings (priv_commands s) = [] then (Return (), w)
      else priv_shell_exec_async (cmd_settings (priv_commands s)) None w)"
  by (simp add: settings_def command_own Let_def)

text \<open>
  Where \<^verbatim>\<open>which\<close> finds nothing and prints nothing for all the candidate names of a role,
  the command stored for the role is the empty string, and \<^verbatim>\<open>switch\<close> (for the roles
  \<^verbatim>\<open>sudo\<close> and \<^verbatim>\<open>select\<close>) and \<^verbatim>\<open>settings\<close> (for the role \<^verbatim>\<open>settings\<close>) leave
  every world as it is.
\<close>

lemma silent_which_helpers:
  "\<exists>s w'. constructor w = (Return s, w')
     \<and> (prints_nothing (shell w [''which'', ''pkexec'']) \<and> prints_nothing (shell w [''which'', ''gksudo''])
          \<longrightarrow> command s ''sudo'' = Str [] \<and> (\<forall>g cb w2. switch g cb s w2 = (Return (), w2)))
     \<and> (prints_nothing (shell w [''which'', ''prime-select''])
          \<longrightarrow> command s ''select'' = Str [] \<and> (\<forall>g cb w2. switch g cb s w2 = (Return (), w2)))
     \<and> (prints_nothing (shell w [''which'', ''nvidia-smi'']) \<longrightarrow> command s ''management'' = Str [])
     \<and> (prints_nothing (shell w [''which'', ''nvidia-settings''])
          \<longrightarrow> command s ''settings'' = Str [] \<and> (\<forall>w2. settings s w2 = (Return (), w2)))"
proof -
  obtain s w' where c: "constructor w = (Return s, w')"
    and sudo: "prints_nothing (shell w [''which'', ''pkexec'']) \<and> prints_nothing (shell w [''which'', ''gksudo''])
          \<longrightarrow> cmd_sudo (priv_commands s) = []"
    and select: "prints_nothing (shell w [''which'', ''prime-select'']) \<longrightarrow> cmd_select (priv_commands s) = []"
    and management: "prints_nothing (shell w [''which'', ''nvidia-smi'']) \<longrightarrow> cmd_management (priv_commands s) = []"
    and settings: "prints_nothing (shell w [''which'', ''nvidia-settings'']) \<longrightarrow> cmd_settings (priv_commands s) = []"
    using constructor_fields [of w] by blast
  have "prints_nothing (shell w [''which'', ''pkexec'']) \<and> prints_nothing (shell w [''which'', ''gksudo''])
          \<longrightarrow> command s ''sudo'' = Str [] \<and> (\<forall>g cb w2. switch g cb s w2 = (Return (), w2))"
    using sudo by (simp add: command_own switch_eq)
  moreover have "prints_nothing (shell w [''which'', ''prime-select''])
          \<longrightarrow> command s ''select'' = Str [] \<and> (\<forall>g cb w2. switch g cb s w2 = (Return (), w2))"
    using select by (simp add: command_own switch_eq)
  moreover have "prints_nothing (shell w [''which'', ''nvidia-smi'']) \<longrightarrow> command s ''management'' = Str []"
    using management by (simp add: command_own)
  moreover have "prints_nothing (shell w [''which'', ''nvidia-settings''])
          \<longrightarrow> command s ''settings'' = Str [] \<and> (\<forall>w2. settings s w2 = (Return (), w2))"
    using settings by (simp add: command_own settings_eq)
  ultimately show ?thesis using c by blast
qed

lemma bare_constructor: "fst (constructor (world0 bare)) = Return bare_switch"
  by (simp add: constructor_def priv_which_eq and_then_def world0_def bare_def str_or_def trim_Nil
        bare_switch_def)

lemma bare_prints_nothing: "prints_nothing (shell (world0 bare) [''which'', c])"
  by (simp add: prints_nothing_def world0_def bare_def trim_Nil)

lemma gnu_which:
  "trim (''which: no pkexec in (/usr/bin)'' @ [CHR 0x0A]) = ''which: no pkexec in (/usr/bin)''"
  "trim (''which: no prime-select in (/usr/bin)'' @ [CHR 0x0A]) = ''which: no prime-select in (/usr/bin)''"
  "trim (''which: no nvidia-smi in (/usr/bin)'' @ [CHR 0x0A]) = ''which: no nvidia-smi in (/usr/bin)''"
  "trim (''which: no nvidia-settings in (/usr/bin)'' @ [CHR 0x0A]) =
     ''which: no nvidia-settings in (/usr/bin)''"
  "trim ''Failed to execute child process (No such file or directory)'' =
     ''Failed to execute child process (No such file or directory)''"
  by code_simp+

lemma gnu_constructor:
  "constructor (world0 gnu) =
     (Return gnu_switch,
      (world0 gnu)\<lparr>trace := [Exec [''which'', ''pkexec''], Exec [''which'', ''prime-select''],
                              Exec [''which'', ''nvidia-smi''], Exec [''which'', ''nvidia-settings'']]\<rparr>)"
  using gnu_which
  by (simp add: constructor_def priv_which_eq and_then_def world0_def gnu_def str_or_def trim_Nil
        gnu_switch_def)

lemma gnu_switch_commands:
  "cmd_sudo (priv_commands gnu_switch) = ''which: no pkexec in (/usr/bin)''"
  "cmd_select (priv_commands gnu_switch) = ''which: no prime-select in (/usr/bin)''"
  "cmd_settings (priv_commands gnu_switch) = ''which: no nvidia-settings in (/usr/bin)''"
  by (simp_all add: gnu_switch_def)

lemma gnu_query:
  "query gnu_switch (world0 gnu) =
     (Return ''Failed to execute child process (No such file or directory)'', world0 gnu)"
  using gnu_which(5)
  by (simp add: query_eq gnu_switch_commands priv_shell_exec_eq world0_def gnu_def trim_Nil)

text \<open>
  Claim C5. The claim is that a role with no executable on the search path has a null entry
  and that \<^verbatim>\<open>switch\<close> and \<^verbatim>\<open>settings\<close> then do nothing. \<^verbatim>\<open>_which\<close> falls back to the
  standard error of \<^verbatim>\<open>which\<close>. On a machine with none of the helpers, where
  \<^verbatim>\<open>which\<close> reports each miss on standard error, the constructor stores the reports as the
  commands and never tries \<^verbatim>\<open>gksudo\<close>; \<^verbatim>\<open>command\<close> returns the report, not
  \<^verbatim>\<open>null\<close>; and \<^verbatim>\<open>switch('intel', cb)\<close> passes both guards, logs, tries to start the
  reports as a command and calls \<open>cb\<close> with \<^verbatim>\<open>{gpu: 'intel', result: false}\<close>.
\<close>

theorem unresolved_helper_stored:
  "shell (world0 gnu) [''which'', ''prime-select''] =
     Exited 1 [] (''which: no prime-select in (/usr/bin)'' @ [CHR 0x0A])
   \<and> fst (constructor (world0 gnu)) = Return gnu_switch
   \<and> trace (snd (constructor (world0 gnu))) =
       [Exec [''which'', ''pkexec''], Exec [''which'', ''prime-select''],
        Exec [''which'', ''nvidia-smi''], Exec [''which'', ''nvidia-settings'']]
   \<and> command gnu_switch ''sudo'' = Str ''which: no pkexec in (/usr/bin)''
   \<and> command gnu_switch ''select'' = Str ''which: no prime-select in (/usr/bin)''
   \<and> command gnu_switch ''settings'' = Str ''which: no nvidia-settings in (/usr/bin)''
   \<and> fst (switch ''intel'' (Func ''cb'') gnu_switch (world0 gnu)) = Return ()
   \<and> trace (snd (switch ''intel'' (Func ''cb'') gnu_switch (world0 gnu))) =
       [Journal [''Prime.Switch'', ''switching to intel''],
        Journal [''Prime.Switch'',
                 ''not switched to intel (Failed to execute child process (No such file or directory))''],
        Invoke ''cb'' ''intel'' False]"
proof -
  have sh: "shell (world0 gnu) [''which'', ''prime-select''] =
     Exited 1 [] (''which: no prime-select in (/usr/bin)'' @ [CHR 0x0A])"
    by (simp add: world0_def gnu_def)
  have built: "fst (constructor (world0 gnu)) = Return gnu_switch"
    "trace (snd (constructor (world0 gnu))) =
       [Exec [''which'', ''pkexec''], Exec [''which'', ''prime-select''],
        Exec [''which'', ''nvidia-smi''], Exec [''which'', ''nvidia-settings'']]"
    by (simp_all add: gnu_constructor)
  have stored: "command gnu_switch ''sudo'' = Str ''which: no pkexec in (/usr/bin)''"
    "command gnu_switch ''select'' = Str ''which: no prime-select in (/usr/bin)''"
    "command gnu_switch ''settings'' = Str ''which: no nvidia-settings in (/usr/bin)''"
    by (simp_all add: command_own gnu_switch_commands)
  have fails: "shell (priv_log ''switching to intel'' (world0 gnu))
      (split_sp ''which: no pkexec in (/usr/bin) which: no prime-select in (/usr/bin) intel'') =
     SpawnError ''Failed to execute child process (No such file or directory)''"
    by (simp add: priv_log_def world0_def gnu_def)
  have sw: "switch ''intel'' (Func ''cb'') gnu_switch (world0 gnu) =
     (Return (),
      call_closure (SwitchDone ''intel'' (Func ''cb''))
        \<lparr>status = - 1,
           stdin = ''which: no pkexec in (/usr/bin) which: no prime-select in (/usr/bin) intel'',
           stdout = [],
           stderr = ''Failed to execute child process (No such file or directory)''\<rparr>
        (priv_log ''switching to intel'' (world0 gnu)))"
    using fails by (simp add: switch_eq gnu_switch_commands gnu_query priv_shell_exec_async_eq)
  have "fst (switch ''intel'' (Func ''cb'') gnu_switch (world0 gnu)) = Return ()"
    by (simp add: sw)
  moreover have "trace (snd (switch ''intel'' (Func ''cb'') gnu_switch (world0 gnu))) =
       [Journal [''Prime.Switch'', ''switching to intel''],
        Journal [''Prime.Switch'',
                 ''not switched to intel (Failed to execute child process (No such file or directory))''],
        Invoke ''cb'' ''intel'' False]"
    using gnu_which(5) by (simp add: sw priv_log_def) (simp add: world0_def)
  ultimately show ?thesis using sh built stored by simp
qed

end
